theory Spec2Isabelle
  imports Complex_Main "HOL-Library.AList"
begin

section \<open>Python values shared by the models\<close>

text \<open>
  The exceptions that the modelled parts of \<^verbatim>\<open>models.py\<close> and \<^verbatim>\<open>eval.py\<close> can
  raise. A function that can raise returns \<open>error + 'a\<close>, with \<open>Inl\<close> the exception.
\<close>

datatype error =
    AssertionError
  | IndexError
  | KeyError
  | RuntimeError
  | ValueError
  | ZeroDivisionError
  | UnboundLocalError
  | AttributeError
  | TypeError
  | NotANumber

text \<open>
  A Python \<^verbatim>\<open>dict\<close> is an association list with distinct keys, in insertion order.
  \<^verbatim>\<open>d[k]\<close> raises \<^verbatim>\<open>KeyError\<close> on a missing key; \<^verbatim>\<open>d[k] = v\<close> overwrites the
  value of a present key in place and appends a new key at the end, which is what
  \<^const>\<open>AList.update\<close> does.
\<close>

type_synonym ('k, 'v) dict = "('k \<times> 'v) list"

definition dict_get :: "('k, 'v) dict \<Rightarrow> 'k \<Rightarrow> error + 'v" where
  "dict_get d k = (case map_of d k of None \<Rightarrow> Inl KeyError | Some v \<Rightarrow> Inr v)"

definition dict_set :: "('k, 'v) dict \<Rightarrow> 'k \<Rightarrow> 'v \<Rightarrow> ('k, 'v) dict" where
  "dict_set d k v = AList.update k v d"

text \<open>
  \<^verbatim>\<open>{v: k for k, v in d.items()}\<close>: the items are visited in insertion order and each
  one stores its key under its value, a later item overwriting an earlier one with the
  same value.
\<close>

definition invert_dict :: "('k, 'v) dict \<Rightarrow> ('v, 'k) dict" where
  "invert_dict d = foldl (\<lambda>acc (k, v). dict_set acc v k) [] d"

text \<open>A list read by index raises \<^verbatim>\<open>IndexError\<close> out of range.\<close>

definition list_get :: "'a list \<Rightarrow> nat \<Rightarrow> error + 'a" where
  "list_get xs i = (if i < length xs then Inr (xs ! i) else Inl IndexError)"

text \<open>
  A list comprehension whose element expression can raise stops at the first
  exception.
\<close>

fun mapM :: "('a \<Rightarrow> error + 'b) \<Rightarrow> 'a list \<Rightarrow> error + 'b list" where
  "mapM f [] = Inr []"
| "mapM f (x # xs) =
     (case f x of
        Inl e \<Rightarrow> Inl e
      | Inr y \<Rightarrow> (case mapM f xs of Inl e \<Rightarrow> Inl e | Inr ys \<Rightarrow> Inr (y # ys)))"

text \<open>Sequencing of two steps, the first of which can raise.\<close>

definition then_do :: "error + 'a \<Rightarrow> ('a \<Rightarrow> error + 'b) \<Rightarrow> error + 'b" where
  "then_do m f = (case m of Inl e \<Rightarrow> Inl e | Inr x \<Rightarrow> f x)"

text \<open>A \<^verbatim>\<open>for\<close> loop that updates a variable and stops at the first exception.\<close>

fun foldM :: "('s \<Rightarrow> 'a \<Rightarrow> error + 's) \<Rightarrow> 's \<Rightarrow> 'a list \<Rightarrow> error + 's" where
  "foldM f s [] = Inr s"
| "foldM f s (x # xs) = (case f s x of Inl e \<Rightarrow> Inl e | Inr s' \<Rightarrow> foldM f s' xs)"

section \<open>Vocabulary\<close>

text \<open>
  \<^verbatim>\<open>vocab2idx\<close> (\<^verbatim>\<open>word2idx\<close> in \<^verbatim>\<open>eval.py\<close>) maps a token to its id; every model
  class and every evaluation function builds the decoding dictionary as
  \<^verbatim>\<open>{v: k for k, v in vocab2idx.items()}\<close>.
\<close>

type_synonym vocab = "(string, int) dict"

definition idx2vocab_of :: "vocab \<Rightarrow> (int, string) dict" where
  "idx2vocab_of vocab2idx = invert_dict vocab2idx"


section \<open>Tensors\<close>

text \<open>
  A tensor is its shape and its entries in row-major order. The entries of a tensor are
  modelled as real numbers: the arithmetic of the models below is the exact one, without
  the rounding of the 32-bit floats that \<^verbatim>\<open>torch\<close> computes with. A batch of
  feature vectors or of scores (a 2-dimensional tensor) is the list of its rows.
\<close>

record tensor =
  shape :: "nat list"
  elems :: "real list"

type_synonym feats = "real list list"

section \<open>The image classifiers\<close>

text \<open>
  \<^verbatim>\<open>TripletClassifier.forward\<close> (\<^verbatim>\<open>models.py\<close>, lines 33-40). The ResNet and the
  preprocessing transform are the arguments \<open>model\<close> and \<open>preprocess\<close>. Reading
  \<^verbatim>\<open>x.shape[2]\<close> of a tensor with fewer dimensions raises \<^verbatim>\<open>IndexError\<close>.
\<close>

definition TripletClassifier_forward ::
  "nat \<Rightarrow> (tensor \<Rightarrow> 'r) \<Rightarrow> (tensor \<Rightarrow> tensor) \<Rightarrow> tensor \<Rightarrow> error + 'r" where
  "TripletClassifier_forward input_size model preprocess x =
     (case list_get (shape x) 2 of
        Inl e \<Rightarrow> Inl e
      | Inr d2 \<Rightarrow>
          if d2 \<noteq> input_size then Inl AssertionError
          else (case list_get (shape x) 3 of
                  Inl e \<Rightarrow> Inl e
                | Inr d3 \<Rightarrow>
                    if d3 \<noteq> input_size then Inl AssertionError
                    else Inr (model (preprocess x))))"

text \<open>
  \<^verbatim>\<open>MultiHeadClassifier.forward\<close> (lines 178-185). The backbone with its
  \<^verbatim>\<open>MultiHead\<close> layer returns, for each image, the concatenation of the 2 scores of
  every head.
\<close>

definition MultiHeadClassifier_forward ::
  "nat \<Rightarrow> (tensor \<Rightarrow> 'r) \<Rightarrow> (tensor \<Rightarrow> tensor) \<Rightarrow> tensor \<Rightarrow> error + 'r" where
  "MultiHeadClassifier_forward input_size backbone preprocess img =
     (case list_get (shape img) 2 of
        Inl e \<Rightarrow> Inl e
      | Inr d2 \<Rightarrow>
          if d2 \<noteq> input_size then Inl AssertionError
          else (case list_get (shape img) 3 of
                  Inl e \<Rightarrow> Inl e
                | Inr d3 \<Rightarrow>
                    if d3 \<noteq> input_size then Inl AssertionError
                    else Inr (backbone (preprocess img))))"

section \<open>Triplet selection in \<^verbatim>\<open>FinalModel.forward\<close>\<close>

text \<open>
  \<^verbatim>\<open>self.sigmoid\<close> is \<^verbatim>\<open>nn.Sigmoid()\<close> (line 205), which computes the logistic
  function in 32-bit floats, where it rounds and saturates (two large scores are both
  sent to 1.0). It is the argument \<open>sigmoid\<close> of the definitions below, and nothing is
  assumed of it: what is proved of them holds for the function that \<^verbatim>\<open>torch\<close> computes.
\<close>

text \<open>
  Line 239: \<^verbatim>\<open>triplets.reshape((shape[0], int(shape[1]/2), 2))\<close> cuts every row into
  consecutive blocks of 2 scores; \<^verbatim>\<open>reshape\<close> raises \<^verbatim>\<open>RuntimeError\<close> when the
  number of entries does not fit, which is when a row has an odd length.
\<close>

fun reshape_row :: "'a list \<Rightarrow> error + ('a \<times> 'a) list" where
  "reshape_row [] = Inr []"
| "reshape_row [x] = Inl RuntimeError"
| "reshape_row (x # y # zs) =
     (case reshape_row zs of Inl e \<Rightarrow> Inl e | Inr bs \<Rightarrow> Inr ((x, y) # bs))"

definition FinalModel_class_out ::
  "(real \<Rightarrow> real) \<Rightarrow> feats \<Rightarrow> error + (real \<times> real) list list" where
  "FinalModel_class_out sigmoid scores = mapM reshape_row (map (map sigmoid) scores)"

text \<open>
  Line 241: \<^verbatim>\<open>torch.argmax(logits).item()\<close> of a block of 2 scores is the index of the
  larger one, and the first index when both are equal.
\<close>

definition argmax :: "real \<times> real \<Rightarrow> nat" where
  "argmax logits = (if fst logits < snd logits then 1 else 0)"

definition threshold :: real where
  "threshold = 0.5"

text \<open>
  Lines 241-245: the list that the threshold is applied to holds the argmax indices,
  not the scores.
\<close>

definition FinalModel_indeces :: "(real \<times> real) list list \<Rightarrow> nat list list" where
  "FinalModel_indeces class_out =
     (let triplets = map (map argmax) class_out
      in map (\<lambda>s. map fst (filter (\<lambda>(i, d). threshold \<le> real d) (enumerate 0 s))) triplets)"

definition proxy_triplet :: string where
  "proxy_triplet = ''('There', 'is', 'no triplet')''"

text \<open>
  Lines 247-251: the selected indices are decoded through \<^verbatim>\<open>idx2tripl\<close>, and every
  sample left without a triplet gets the proxy triplet appended.
\<close>

definition FinalModel_decode_triplets ::
  "(int, string) dict \<Rightarrow> nat list list \<Rightarrow> error + string list list" where
  "FinalModel_decode_triplets idx2tripl indeces =
     (case mapM (mapM (\<lambda>i. dict_get idx2tripl (int i))) indeces of
        Inl e \<Rightarrow> Inl e
      | Inr triplets \<Rightarrow> Inr (map (\<lambda>s. if s = [] then s @ [proxy_triplet] else s) triplets))"

text \<open>
  Lines 233-245 of \<^verbatim>\<open>FinalModel.forward\<close>: the indices selected for each image of the
  batch. The classifier is \<^verbatim>\<open>MultiHeadClassifier(img_dim, len(tripl2idx))\<close>.
\<close>

definition FinalModel_selected ::
  "(real \<Rightarrow> real) \<Rightarrow> nat \<Rightarrow> (tensor \<Rightarrow> feats) \<Rightarrow> (tensor \<Rightarrow> tensor) \<Rightarrow> tensor
     \<Rightarrow> error + nat list list" where
  "FinalModel_selected sigmoid img_dim backbone preprocess img =
     (case MultiHeadClassifier_forward img_dim backbone preprocess img of
        Inl e \<Rightarrow> Inl e
      | Inr scores \<Rightarrow>
          (case FinalModel_class_out sigmoid scores of
             Inl e \<Rightarrow> Inl e
           | Inr class_out \<Rightarrow> Inr (FinalModel_indeces class_out)))"

text \<open>
  The selection in the words of the specification, for the sigmoid-activated blocks of
  one image: the classes whose activated score of the outcome "present" (the second
  score of the class's block) meets the threshold.
\<close>

definition spec_threshold_selected :: "(real \<times> real) list \<Rightarrow> nat list" where
  "spec_threshold_selected blocks =
     filter (\<lambda>c. threshold \<le> snd (blocks ! c)) [0..<length blocks]"

section \<open>The caption models\<close>

text \<open>
  The modules a model is built from, as the constructor calls of \<^verbatim>\<open>__init__\<close> write
  them: \<^verbatim>\<open>nn.Linear(in_features, out_features)\<close>, an \<^verbatim>\<open>nn.ModuleList\<close> of them,
  \<^verbatim>\<open>LSTMDecoder(feats_dim, max_seq_len, vocab2idx)\<close>,
  \<^verbatim>\<open>decoderRNN(feats_dim, len(vocab2idx), feats_dim, 3)\<close>, \<^verbatim>\<open>GNN(feats_dim)\<close> or
  \<^verbatim>\<open>GNN(feats_dim, gnn)\<close>, and \<^verbatim>\<open>MLAPModel(res, vir, feats_dim, depth)\<close>. The classes
  of module \<^verbatim>\<open>gnn\<close> are not part of the sources; a module of such a class is the
  constructor call with its arguments, and what it computes is a parameter
  (\<open>torch_modules\<close> below).
\<close>

datatype linear = Linear nat nat

datatype decoder =
    ModuleList "linear list"
  | LSTMDecoder nat nat vocab
  | decoderRNN nat nat nat nat

datatype graph_encoder =
    GNN nat "string option"
  | MLAPModel bool bool nat nat

text \<open>
  What the modules compute. \<open>'g\<close> is a batched graph, \<open>'x\<close> its node features and
  \<open>'l\<close> the labels. The output of a decoder is the list of the score matrices of the
  positions. \<open>run_lstm\<close> takes the \<^verbatim>\<open>training\<close> flag when the call passes one.
\<close>

record ('g, 'x, 'l) torch_modules =
  run_encoder :: "graph_encoder \<Rightarrow> 'g \<Rightarrow> 'x \<Rightarrow> error + feats"
  run_dropout :: "feats \<Rightarrow> feats"
  run_linear :: "linear \<Rightarrow> feats \<Rightarrow> feats"
  run_lstm :: "decoder \<Rightarrow> 'g \<Rightarrow> feats \<Rightarrow> 'l \<Rightarrow> bool option \<Rightarrow> error + feats list"
  run_rnn :: "decoder \<Rightarrow> feats \<Rightarrow> 'l \<Rightarrow> error + feats list"
  run_img_encoder :: "tensor \<Rightarrow> error + feats"
  run_tripl2graph :: "string list list \<Rightarrow> error + ('g \<times> 'x)"

text \<open>
  An \<^verbatim>\<open>nn.Linear\<close> layer applied to a batch raises \<^verbatim>\<open>RuntimeError\<close> unless the
  width of the batch is the layer's \<^verbatim>\<open>in_features\<close>.
\<close>

definition Linear_forward :: "(linear \<Rightarrow> feats \<Rightarrow> feats) \<Rightarrow> linear \<Rightarrow> feats \<Rightarrow> error + feats" where
  "Linear_forward weights d x =
     (case d of Linear in_features out_features \<Rightarrow>
        if list_all (\<lambda>row. length row = in_features) x then Inr (weights d x)
        else Inl RuntimeError)"

text \<open>
  \<^verbatim>\<open>[d(x) for d in self.decoder]\<close>: the attribute may never have been assigned
  (\<open>None\<close>), and only a \<^verbatim>\<open>ModuleList\<close> can be iterated.
\<close>

definition linear_decode ::
  "(linear \<Rightarrow> feats \<Rightarrow> feats) \<Rightarrow> decoder option \<Rightarrow> feats \<Rightarrow> error + feats list" where
  "linear_decode weights dec x =
     (case dec of
        None \<Rightarrow> Inl AttributeError
      | Some (ModuleList ds) \<Rightarrow> mapM (\<lambda>d. Linear_forward weights d x) ds
      | Some _ \<Rightarrow> Inl TypeError)"

subsection \<open>\<^verbatim>\<open>CaptionGenerator\<close>\<close>

record CaptionGenerator =
  cg_encoder :: graph_encoder
  cg_decoder_type :: string
  cg_decoder :: "decoder option"
  cg_vocab2idx :: vocab
  cg_idx2vocab :: "(int, string) dict"

text \<open>
  \<^verbatim>\<open>CaptionGenerator.__init__\<close> (lines 55-67). The three \<^verbatim>\<open>if\<close> statements run one
  after the other; the attribute \<^verbatim>\<open>self.decoder\<close> is \<open>None\<close> until one of them
  assigns it.
\<close>

definition CaptionGenerator_init :: "nat \<Rightarrow> nat \<Rightarrow> vocab \<Rightarrow> string \<Rightarrow> CaptionGenerator" where
  "CaptionGenerator_init feats_dim max_seq_len vocab2idx decoder =
     (let d0 = None;
          d1 = (if decoder = ''linear''
                then Some (ModuleList (replicate max_seq_len (Linear feats_dim (length vocab2idx))))
                else d0);
          d2 = (if decoder = ''lstm'' then Some (LSTMDecoder feats_dim max_seq_len vocab2idx) else d1);
          d3 = (if decoder = ''rnn''
                then Some (decoderRNN feats_dim (length vocab2idx) feats_dim 3)
                else d2)
      in \<lparr>cg_encoder = GNN feats_dim None, cg_decoder_type = decoder, cg_decoder = d3,
          cg_vocab2idx = vocab2idx, cg_idx2vocab = idx2vocab_of vocab2idx\<rparr>)"

text \<open>
  \<^verbatim>\<open>CaptionGenerator.forward\<close> (lines 69-78). \<^verbatim>\<open>decoded_out\<close> is a local variable
  that is bound only inside the three \<^verbatim>\<open>if\<close> statements; returning it unbound raises
  \<^verbatim>\<open>UnboundLocalError\<close>.
\<close>

definition CaptionGenerator_forward ::
  "('g, 'x, 'l) torch_modules \<Rightarrow> CaptionGenerator \<Rightarrow> 'g \<Rightarrow> 'x \<Rightarrow> 'l \<Rightarrow> error + feats list" where
  "CaptionGenerator_forward T self g x labels =
     then_do (run_encoder T (cg_encoder self) g x) (\<lambda>encoded.
     let graph_feats = run_dropout T encoded in
     then_do (if cg_decoder_type self = ''linear''
              then then_do (linear_decode (run_linear T) (cg_decoder self) graph_feats) (\<lambda>out. Inr (Some out))
              else Inr None) (\<lambda>out1.
     then_do (if cg_decoder_type self = ''lstm''
              then (case cg_decoder self of
                      None \<Rightarrow> Inl AttributeError
                    | Some d \<Rightarrow> then_do (run_lstm T d g graph_feats labels None) (\<lambda>out. Inr (Some out)))
              else Inr out1) (\<lambda>out2.
     then_do (if cg_decoder_type self = ''rnn''
              then (case cg_decoder self of
                      None \<Rightarrow> Inl AttributeError
                    | Some d \<Rightarrow> then_do (run_rnn T d graph_feats labels) (\<lambda>out. Inr (Some out)))
              else Inr out2) (\<lambda>decoded_out.
     case decoded_out of None \<Rightarrow> Inl UnboundLocalError | Some out \<Rightarrow> Inr out))))"

subsection \<open>\<^verbatim>\<open>AugmentedCaptionGenerator\<close>\<close>

record AugmentedCaptionGenerator =
  acg_encoder :: graph_encoder
  acg_img_fc :: linear
  acg_img_weight :: real
  acg_decoder_type :: string
  acg_decoder :: "decoder option"
  acg_vocab2idx :: vocab
  acg_idx2vocab :: "(int, string) dict"

text \<open>
  \<^verbatim>\<open>AugmentedCaptionGenerator.__init__\<close> (lines 96-120). The last layer of the image
  encoder is replaced by \<^verbatim>\<open>nn.Linear(2048, feats_dim)\<close>; \<^verbatim>\<open>img_weight\<close> is
  initialised at random, so its initial value is an argument.
\<close>

definition AugmentedCaptionGenerator_init ::
  "real \<Rightarrow> nat \<Rightarrow> nat \<Rightarrow> vocab \<Rightarrow> string \<Rightarrow> AugmentedCaptionGenerator" where
  "AugmentedCaptionGenerator_init img_weight feats_dim max_seq_len vocab2idx decoder =
     (let d0 = None;
          d1 = (if decoder = ''linear''
                then Some (ModuleList (replicate max_seq_len (Linear feats_dim (length vocab2idx))))
                else d0);
          d2 = (if decoder = ''lstm'' then Some (LSTMDecoder feats_dim max_seq_len vocab2idx) else d1);
          d3 = (if decoder = ''rnn''
                then Some (decoderRNN feats_dim (length vocab2idx) feats_dim 3)
                else d2)
      in \<lparr>acg_encoder = GNN feats_dim None, acg_img_fc = Linear 2048 feats_dim,
          acg_img_weight = img_weight, acg_decoder_type = decoder, acg_decoder = d3,
          acg_vocab2idx = vocab2idx, acg_idx2vocab = idx2vocab_of vocab2idx\<rparr>)"

text \<open>
  Elementwise operations broadcast: two dimensions are compatible when they are equal
  or one of them is 1, and anything else raises \<^verbatim>\<open>RuntimeError\<close>.
\<close>

definition broadcast :: "('a \<Rightarrow> 'b \<Rightarrow> error + 'c) \<Rightarrow> 'a list \<Rightarrow> 'b list \<Rightarrow> error + 'c list" where
  "broadcast f xs ys =
     (if length xs = length ys then mapM (\<lambda>(x, y). f x y) (zip xs ys)
      else if length xs = 1 then mapM (\<lambda>y. f (hd xs) y) ys
      else if length ys = 1 then mapM (\<lambda>x. f x (hd ys)) xs
      else Inl RuntimeError)"

definition tensor_add :: "feats \<Rightarrow> feats \<Rightarrow> error + feats" where
  "tensor_add a b = broadcast (broadcast (\<lambda>x y. Inr (x + y))) a b"

text \<open>Line 126: \<^verbatim>\<open>mod_feats = graph_feats + (i_feats * self.img_weight)\<close>.\<close>

definition AugmentedCaptionGenerator_mod_feats :: "real \<Rightarrow> feats \<Rightarrow> feats \<Rightarrow> error + feats" where
  "AugmentedCaptionGenerator_mod_feats img_weight graph_feats i_feats =
     tensor_add graph_feats (map (map (\<lambda>v. v * img_weight)) i_feats)"

text \<open>\<^verbatim>\<open>AugmentedCaptionGenerator.forward\<close> (lines 122-134).\<close>

definition AugmentedCaptionGenerator_forward ::
  "('g, 'x, 'l) torch_modules \<Rightarrow> AugmentedCaptionGenerator \<Rightarrow> 'g \<Rightarrow> 'x \<Rightarrow> tensor \<Rightarrow> 'l
     \<Rightarrow> error + feats list" where
  "AugmentedCaptionGenerator_forward T self g g_feats img labels =
     then_do (run_img_encoder T img) (\<lambda>i_feats.
     then_do (run_encoder T (acg_encoder self) g g_feats) (\<lambda>encoded.
     let graph_feats = run_dropout T encoded in
     then_do (AugmentedCaptionGenerator_mod_feats (acg_img_weight self) graph_feats i_feats) (\<lambda>mod_feats.
     then_do (if acg_decoder_type self = ''linear''
              then then_do (linear_decode (run_linear T) (acg_decoder self) mod_feats) (\<lambda>out. Inr (Some out))
              else Inr None) (\<lambda>out1.
     then_do (if acg_decoder_type self = ''lstm''
              then (case acg_decoder self of
                      None \<Rightarrow> Inl AttributeError
                    | Some d \<Rightarrow> then_do (run_lstm T d g mod_feats labels None) (\<lambda>out. Inr (Some out)))
              else Inr out1) (\<lambda>out2.
     then_do (if acg_decoder_type self = ''rnn''
              then (case acg_decoder self of
                      None \<Rightarrow> Inl AttributeError
                    | Some d \<Rightarrow> then_do (run_rnn T d mod_feats labels) (\<lambda>out. Inr (Some out)))
              else Inr out2) (\<lambda>decoded_out.
     case decoded_out of None \<Rightarrow> Inl UnboundLocalError | Some out \<Rightarrow> Inr out))))))"

subsection \<open>\<^verbatim>\<open>FinalModel\<close>\<close>

datatype multihead_classifier = MultiHeadClassifier nat nat

record FinalModel =
  fm_graph_encoder :: "graph_encoder option"
  fm_tripl_classifier :: multihead_classifier
  fm_idx2tripl :: "(int, string) dict"
  fm_img_fc :: linear
  fm_img_weight :: real
  fm_decoder_type :: string
  fm_decoder :: "decoder option"
  fm_vocab2idx :: vocab
  fm_idx2vocab :: "(int, string) dict"

text \<open>
  \<^verbatim>\<open>FinalModel.__init__\<close> (lines 197-231). Only the linear decoder is built for the
  width \<^verbatim>\<open>feats_dim*2\<close> (line 224, under the comment "For modified concatenation").
\<close>

definition FinalModel_init ::
  "real \<Rightarrow> nat \<Rightarrow> nat \<Rightarrow> vocab \<Rightarrow> nat \<Rightarrow> (string, int) dict \<Rightarrow> string \<Rightarrow> bool \<Rightarrow> bool \<Rightarrow> nat
     \<Rightarrow> string \<Rightarrow> FinalModel" where
  "FinalModel_init img_weight feats_dim max_seq_len vocab2idx img_dim tripl2idx gnn res vir depth decoder =
     (let graph_encoder =
            (if gnn = ''gat'' \<or> gnn = ''gcn'' then Some (GNN feats_dim (Some gnn))
             else if gnn = ''mlap'' then Some (MLAPModel res vir feats_dim depth)
             else None);
          d0 = None;
          d1 = (if decoder = ''linear''
                then Some (ModuleList (replicate max_seq_len (Linear (feats_dim * 2) (length vocab2idx))))
                else d0);
          d2 = (if decoder = ''lstm'' then Some (LSTMDecoder feats_dim max_seq_len vocab2idx) else d1);
          d3 = (if decoder = ''rnn''
                then Some (decoderRNN feats_dim (length vocab2idx) feats_dim 3)
                else d2)
      in \<lparr>fm_graph_encoder = graph_encoder,
          fm_tripl_classifier = MultiHeadClassifier img_dim (length tripl2idx),
          fm_idx2tripl = invert_dict tripl2idx,
          fm_img_fc = Linear 2048 feats_dim,
          fm_img_weight = img_weight,
          fm_decoder_type = decoder, fm_decoder = d3,
          fm_vocab2idx = vocab2idx, fm_idx2vocab = idx2vocab_of vocab2idx\<rparr>)"

text \<open>
  Line 259: \<^verbatim>\<open>mod_feats = torch.cat([graph_feats, i_feats], dim=1)\<close> appends to every
  row of the graph features the row of the image features; the two batches must have
  the same number of rows.
\<close>

definition FinalModel_mod_feats :: "feats \<Rightarrow> feats \<Rightarrow> error + feats" where
  "FinalModel_mod_feats graph_feats i_feats =
     (if length graph_feats = length i_feats
      then Inr (map (\<lambda>(g, i). g @ i) (zip graph_feats i_feats))
      else Inl RuntimeError)"

text \<open>
  Lines 233-251 of \<^verbatim>\<open>FinalModel.forward\<close>: the per-sample triplet lists that line 254
  passes to \<^verbatim>\<open>tripl2graph\<close>, and \<^verbatim>\<open>class_out\<close>.
\<close>

definition FinalModel_triplets ::
  "(real \<Rightarrow> real) \<Rightarrow> (tensor \<Rightarrow> feats) \<Rightarrow> (tensor \<Rightarrow> tensor) \<Rightarrow> FinalModel \<Rightarrow> tensor
     \<Rightarrow> error + (string list list \<times> (real \<times> real) list list)" where
  "FinalModel_triplets sigmoid backbone preprocess self img =
     (case fm_tripl_classifier self of MultiHeadClassifier img_dim dict_size \<Rightarrow>
     then_do (MultiHeadClassifier_forward img_dim backbone preprocess img) (\<lambda>scores.
     then_do (FinalModel_class_out sigmoid scores) (\<lambda>class_out.
     let indeces = FinalModel_indeces class_out in
     then_do (FinalModel_decode_triplets (fm_idx2tripl self) indeces) (\<lambda>triplets.
     Inr (triplets, class_out)))))"

text \<open>
  \<^verbatim>\<open>FinalModel.forward\<close> (lines 233-271); the \<^verbatim>\<open>rnn\<close> branch of the decoder is
  commented out in the source. The result is \<^verbatim>\<open>(decoded_out, class_out)\<close>.
\<close>

definition FinalModel_forward ::
  "('g, 'x, 'l) torch_modules \<Rightarrow> (real \<Rightarrow> real) \<Rightarrow> (tensor \<Rightarrow> feats) \<Rightarrow> (tensor \<Rightarrow> tensor)
     \<Rightarrow> FinalModel \<Rightarrow> tensor \<Rightarrow> 'l \<Rightarrow> bool
     \<Rightarrow> error + (feats list \<times> (real \<times> real) list list)" where
  "FinalModel_forward T sigmoid backbone preprocess self img labels training =
     then_do (FinalModel_triplets sigmoid backbone preprocess self img) (\<lambda>(triplets, class_out).
     then_do (run_tripl2graph T triplets) (\<lambda>(graph, node_feats).
     then_do (run_img_encoder T img) (\<lambda>i_feats.
     then_do (case fm_graph_encoder self of
                None \<Rightarrow> Inl AttributeError
              | Some enc \<Rightarrow> run_encoder T enc graph node_feats) (\<lambda>encoded.
     let graph_feats = run_dropout T encoded in
     then_do (FinalModel_mod_feats graph_feats i_feats) (\<lambda>mod_feats.
     then_do (if fm_decoder_type self = ''linear''
              then then_do (linear_decode (run_linear T) (fm_decoder self) mod_feats) (\<lambda>out. Inr (Some out))
              else Inr None) (\<lambda>out1.
     then_do (if fm_decoder_type self = ''lstm''
              then (case fm_decoder self of
                      None \<Rightarrow> Inl AttributeError
                    | Some d \<Rightarrow> then_do (run_lstm T d graph mod_feats labels (Some training))
                                  (\<lambda>out. Inr (Some out)))
              else Inr out1) (\<lambda>decoded_out.
     case decoded_out of
       None \<Rightarrow> Inl UnboundLocalError
     | Some out \<Rightarrow> Inr (out, class_out))))))))"

section \<open>The loss\<close>

text \<open>
  \<^verbatim>\<open>nn.CrossEntropyLoss()\<close> with its default arguments (\<^verbatim>\<open>reduction='mean'\<close>,
  \<^verbatim>\<open>ignore_index=-100\<close>), applied to a matrix of scores (one row per sample) and a
  vector of class ids. A sample whose id is \<^verbatim>\<open>ignore_index\<close> is left out; another id
  outside the classes raises \<^verbatim>\<open>IndexError\<close>; the losses of the remaining samples are
  averaged. When no sample remains, \<^verbatim>\<open>torch\<close> returns nan, which is the outcome
  \<open>Inl NotANumber\<close> here.
\<close>

definition ignore_index :: int where
  "ignore_index = - 100"

definition cross_entropy :: "real list \<Rightarrow> nat \<Rightarrow> real" where
  "cross_entropy scores t = ln (\<Sum>s\<leftarrow>scores. exp s) - scores ! t"

definition CrossEntropyLoss :: "feats \<Rightarrow> int list \<Rightarrow> error + real" where
  "CrossEntropyLoss input target =
     (if length input \<noteq> length target then Inl ValueError
      else
        then_do (mapM (\<lambda>(scores, t).
                   if t = ignore_index then Inr None
                   else if t < 0 \<or> int (length scores) \<le> t then Inl IndexError
                   else Inr (Some (cross_entropy scores (nat t))))
                 (zip input target)) (\<lambda>losses.
        let kept = concat (map (\<lambda>l. case l of None \<Rightarrow> [] | Some v \<Rightarrow> [v]) losses)
        in if kept = [] then Inl NotANumber
           else Inr (sum_list kept / real (length kept))))"

text \<open>
  \<^verbatim>\<open>torch.vstack\<close> of the encoded captions: it raises \<^verbatim>\<open>RuntimeError\<close> on an empty
  list and on rows of different lengths. \<^verbatim>\<open>batched_label[:, i]\<close> raises
  \<^verbatim>\<open>IndexError\<close> when the matrix has no column \<open>i\<close>.
\<close>

definition vstack :: "int list list \<Rightarrow> error + int list list" where
  "vstack rows =
     (if rows = [] then Inl RuntimeError
      else if list_all (\<lambda>r. length r = length (hd rows)) rows then Inr rows
      else Inl RuntimeError)"

definition column :: "int list list \<Rightarrow> nat \<Rightarrow> error + int list" where
  "column m i = mapM (\<lambda>r. list_get r i) m"

text \<open>Python's \<^verbatim>\<open>sum\<close> adds the elements to 0 from left to right.\<close>

definition py_sum :: "real list \<Rightarrow> real" where
  "py_sum xs = foldl (+) 0 xs"

datatype device = CPU | CUDA

text \<open>
  The four \<^verbatim>\<open>_loss\<close> methods (lines 80-82, 136-138, 273-275 and 328-330), each
  translated from its own lines. \<^verbatim>\<open>_encode_seq_to_arr\<close> belongs to module \<^verbatim>\<open>gnn\<close>,
  which is not part of the sources: it is the argument \<open>encode_seq_to_arr\<close>, which
  gives the row of ids of a caption. Moving the labels to the device does not change
  them. The division of \<^verbatim>\<open>sum([])\<close>, the integer 0, by \<^verbatim>\<open>max_seq_len = 0\<close> raises
  \<^verbatim>\<open>ZeroDivisionError\<close>.
\<close>

definition CaptionGenerator_loss ::
  "(string list \<Rightarrow> vocab \<Rightarrow> nat \<Rightarrow> error + int list) \<Rightarrow> feats list \<Rightarrow> string list list \<Rightarrow> vocab
     \<Rightarrow> nat \<Rightarrow> device \<Rightarrow> error + real" where
  "CaptionGenerator_loss encode_seq_to_arr out labels vocab2idx max_seq_len dev =
     then_do (mapM (\<lambda>label. encode_seq_to_arr label vocab2idx max_seq_len) labels) (\<lambda>rows.
     then_do (vstack rows) (\<lambda>batched_label.
     then_do (mapM (\<lambda>i. then_do (list_get out i) (\<lambda>out_i.
                         then_do (column batched_label i) (\<lambda>target.
                         CrossEntropyLoss out_i target)))
                   [0..<max_seq_len]) (\<lambda>losses.
     if max_seq_len = 0 then Inl ZeroDivisionError
     else Inr (py_sum losses / real max_seq_len))))"

definition AugmentedCaptionGenerator_loss ::
  "(string list \<Rightarrow> vocab \<Rightarrow> nat \<Rightarrow> error + int list) \<Rightarrow> feats list \<Rightarrow> string list list \<Rightarrow> vocab
     \<Rightarrow> nat \<Rightarrow> device \<Rightarrow> error + real" where
  "AugmentedCaptionGenerator_loss encode_seq_to_arr out labels vocab2idx max_seq_len dev =
     then_do (mapM (\<lambda>label. encode_seq_to_arr label vocab2idx max_seq_len) labels) (\<lambda>rows.
     then_do (vstack rows) (\<lambda>batched_label.
     then_do (mapM (\<lambda>i. then_do (list_get out i) (\<lambda>out_i.
                         then_do (column batched_label i) (\<lambda>target.
                         CrossEntropyLoss out_i target)))
                   [0..<max_seq_len]) (\<lambda>losses.
     if max_seq_len = 0 then Inl ZeroDivisionError
     else Inr (py_sum losses / real max_seq_len))))"

definition FinalModel_loss ::
  "(string list \<Rightarrow> vocab \<Rightarrow> nat \<Rightarrow> error + int list) \<Rightarrow> feats list \<Rightarrow> string list list \<Rightarrow> vocab
     \<Rightarrow> nat \<Rightarrow> device \<Rightarrow> error + real" where
  "FinalModel_loss encode_seq_to_arr out labels vocab2idx max_seq_len dev =
     then_do (mapM (\<lambda>label. encode_seq_to_arr label vocab2idx max_seq_len) labels) (\<lambda>rows.
     then_do (vstack rows) (\<lambda>batched_label.
     then_do (mapM (\<lambda>i. then_do (list_get out i) (\<lambda>out_i.
                         then_do (column batched_label i) (\<lambda>target.
                         CrossEntropyLoss out_i target)))
                   [0..<max_seq_len]) (\<lambda>losses.
     if max_seq_len = 0 then Inl ZeroDivisionError
     else Inr (py_sum losses / real max_seq_len))))"

definition FinetunedModel_loss ::
  "(string list \<Rightarrow> vocab \<Rightarrow> nat \<Rightarrow> error + int list) \<Rightarrow> feats list \<Rightarrow> string list list \<Rightarrow> vocab
     \<Rightarrow> nat \<Rightarrow> device \<Rightarrow> error + real" where
  "FinetunedModel_loss encode_seq_to_arr out labels vocab2idx max_seq_len dev =
     then_do (mapM (\<lambda>label. encode_seq_to_arr label vocab2idx max_seq_len) labels) (\<lambda>rows.
     then_do (vstack rows) (\<lambda>batched_label.
     then_do (mapM (\<lambda>i. then_do (list_get out i) (\<lambda>out_i.
                         then_do (column batched_label i) (\<lambda>target.
                         CrossEntropyLoss out_i target)))
                   [0..<max_seq_len]) (\<lambda>losses.
     if max_seq_len = 0 then Inl ZeroDivisionError
     else Inr (py_sum losses / real max_seq_len))))"

text \<open>
  The loss in the words of the specification: for every position, the cross-entropy
  between the scores of the position and the id of the caption at that position,
  averaged over the samples of the batch; these are summed over the \<open>max_seq_len\<close>
  positions and divided by \<open>max_seq_len\<close>. \<open>ids\<close> holds the row of ids of every
  caption, padding included.
\<close>

definition averaged_position_cross_entropy :: "feats list \<Rightarrow> int list list \<Rightarrow> nat \<Rightarrow> real" where
  "averaged_position_cross_entropy out ids max_seq_len =
     (\<Sum>i < max_seq_len.
        (\<Sum>b < length ids. cross_entropy (out ! i ! b) (nat (ids ! b ! i))) / real (length ids))
     / real max_seq_len"

section \<open>The result files of the evaluation\<close>

datatype json =
    JInt int
  | JStr string
  | JList "json list"
  | JObj "(string \<times> json) list"

text \<open>
  \<^verbatim>\<open>eval_captions\<close> (\<^verbatim>\<open>eval.py\<close>, lines 16-47). A batch of the loader is the list of
  its sample ids with the inputs of the model. \<^verbatim>\<open>decode_output\<close> belongs to module
  \<^verbatim>\<open>graph_utils\<close>, which is not part of the sources: it is an argument, which gives for
  every sample of the batch the list of its decoded tokens. The value of the function is
  the JSON value that \<^verbatim>\<open>json.dump\<close> writes to the file.
\<close>

definition eval_captions_batch ::
  "('o \<Rightarrow> (int, string) dict \<Rightarrow> error + string list list) \<Rightarrow> ('i \<Rightarrow> error + 'o) \<Rightarrow> (int, string) dict
     \<Rightarrow> (string, json) dict \<Rightarrow> string list \<times> 'i \<Rightarrow> error + (string, json) dict" where
  "eval_captions_batch decode_output model idx2word result data =
     (case data of (ids, inputs) \<Rightarrow>
        then_do (model inputs) (\<lambda>outputs.
        then_do (decode_output outputs idx2word) (\<lambda>decoded_outputs.
        foldM (\<lambda>result (i, sample_id).
                 then_do (list_get decoded_outputs i) (\<lambda>decoded.
                 Inr (dict_set result sample_id
                        (JObj [(''caption length'', JInt (int (length decoded))),
                               (''caption '', JList (map JStr decoded))]))))
              result (enumerate 0 ids))))"

definition eval_captions ::
  "('o \<Rightarrow> (int, string) dict \<Rightarrow> error + string list list) \<Rightarrow> ('i \<Rightarrow> error + 'o) \<Rightarrow> vocab
     \<Rightarrow> (string list \<times> 'i) list \<Rightarrow> error + json" where
  "eval_captions decode_output model word2idx testloader =
     (let idx2word = invert_dict word2idx
      in then_do (foldM (eval_captions_batch decode_output model idx2word) [] testloader)
           (\<lambda>result. Inr (JObj result)))"

text \<open>
  \<^verbatim>\<open>eval_pipeline\<close> (lines 139-173), up to the \<^verbatim>\<open>json.dump\<close> of line 171:
  \<^verbatim>\<open>model.sample\<close> gives the ids of one caption, which every id of the batch gets.
  The call of \<^verbatim>\<open>bleuFormat\<close> that follows belongs to module \<^verbatim>\<open>graph_utils\<close> and is
  not modelled.
\<close>

definition eval_pipeline_batch ::
  "('i \<Rightarrow> error + int list) \<Rightarrow> (int, string) dict \<Rightarrow> (string, json) dict \<Rightarrow> string list \<times> 'i
     \<Rightarrow> error + (string, json) dict" where
  "eval_pipeline_batch sample idx2word result data =
     (case data of (ids, images) \<Rightarrow>
        then_do (sample images) (\<lambda>cap_output.
        then_do (mapM (\<lambda>idx. dict_get idx2word idx) cap_output) (\<lambda>decode_output.
        foldM (\<lambda>result sample_id.
                 Inr (dict_set result sample_id
                        (JObj [(''caption length'', JInt (int (length decode_output))),
                               (''caption '', JList (map JStr decode_output))])))
              result ids)))"

definition eval_pipeline ::
  "('i \<Rightarrow> error + int list) \<Rightarrow> vocab \<Rightarrow> (string list \<times> 'i) list \<Rightarrow> error + json" where
  "eval_pipeline sample word2idx testloader =
     (let idx2word = invert_dict word2idx
      in then_do (foldM (eval_pipeline_batch sample idx2word) [] testloader)
           (\<lambda>result. Inr (JObj result)))"

text \<open>
  The documented shape of a result file: a JSON object with one member for each sample
  id, whose value is an object with exactly the two members \<^verbatim>\<open>"caption length"\<close> and
  \<^verbatim>\<open>"caption "\<close>, the second a list of strings and the first the length of that list.
\<close>

fun is_JStr :: "json \<Rightarrow> bool" where
  "is_JStr (JStr s) = True"
| "is_JStr _ = False"

fun is_caption_entry :: "json \<Rightarrow> bool" where
  "is_caption_entry (JObj [(k1, JInt n), (k2, JList tokens)]) =
     (k1 = ''caption length'' \<and> k2 = ''caption '' \<and> list_all is_JStr tokens
      \<and> n = int (length tokens))"
| "is_caption_entry _ = False"

fun is_result_file :: "string set \<Rightarrow> json \<Rightarrow> bool" where
  "is_result_file ids (JObj members) =
     (distinct (map fst members) \<and> set (map fst members) = ids
      \<and> list_all (\<lambda>(sample_id, v). is_caption_entry v) members)"
| "is_result_file ids _ = False"

definition sample_ids :: "(string list \<times> 'i) list \<Rightarrow> string set" where
  "sample_ids testloader = set (concat (map fst testloader))"

text \<open>
  The invariant of the \<^verbatim>\<open>result\<close> dictionary during the evaluation loops: its keys
  are the sample ids \<open>K\<close> seen so far, each once, and every value has the documented
  shape.
\<close>

definition entries_ok :: "string set \<Rightarrow> (string, json) dict \<Rightarrow> bool" where
  "entries_ok K result \<longleftrightarrow>
     distinct (map fst result) \<and> set (map fst result) = K
     \<and> list_all (\<lambda>(sample_id, v). is_caption_entry v) result"

section \<open>Properties of dictionaries\<close>

lemma map_of_foldl_dict_set:
  "map_of (foldl (\<lambda>acc (k, v). dict_set acc v k) acc d) =
     map_of acc ++ map_of (rev (map (\<lambda>(k, v). (v, k)) d))"
proof (induction d arbitrary: acc)
  case Nil
  show ?case by simp
next
  case (Cons p d)
  obtain k v where p: "p = (k, v)" by (cases p)
  have "map_of (foldl (\<lambda>acc (k, v). dict_set acc v k) acc (p # d)) =
        map_of (dict_set acc v k) ++ map_of (rev (map (\<lambda>(k, v). (v, k)) d))"
    using Cons.IH [of "dict_set acc v k"] by (simp add: p)
  also have "\<dots> = map_of acc ++ map_of (rev (map (\<lambda>(k, v). (v, k)) (p # d)))"
    by (simp add: p dict_set_def update_conv')
  finally show ?case .
qed

lemma map_of_invert_dict:
  "map_of (invert_dict d) = map_of (rev (map (\<lambda>(k, v). (v, k)) d))"
  by (simp add: invert_dict_def map_of_foldl_dict_set)

lemma invert_dict_lookup:
  assumes "distinct (map snd d)" and "(t, i) \<in> set d"
  shows "map_of (invert_dict d) i = Some t"
proof -
  have "distinct (map fst (rev (map (\<lambda>(k, v). (v, k)) d)))"
    using assms(1) by (simp add: rev_map [symmetric] comp_def case_prod_beta)
  moreover have "(i, t) \<in> set (rev (map (\<lambda>(k, v). (v, k)) d))"
    using assms(2) by force
  ultimately have "map_of (rev (map (\<lambda>(k, v). (v, k)) d)) i = Some t"
    by (rule map_of_is_SomeI)
  then show ?thesis
    by (simp only: map_of_invert_dict)
qed

section \<open>Round trip through the vocabulary\<close>

text \<open>
  Claim C6. For a vocabulary whose ids are pairwise distinct (the token-to-id mapping
  is one-to-one), looking a token up in \<^verbatim>\<open>vocab2idx\<close> and decoding the id through
  \<^verbatim>\<open>idx2vocab\<close> gives the token back: \<^verbatim>\<open>idx2vocab[vocab2idx[t]] = t\<close>, and neither
  lookup raises.
\<close>

theorem vocab_round_trip:
  assumes "distinct (map snd vocab2idx)"
    and "dict_get vocab2idx t = Inr i"
  shows "dict_get (idx2vocab_of vocab2idx) i = Inr t"
proof -
  have "map_of vocab2idx t = Some i"
    using assms(2) by (simp add: dict_get_def split: option.splits)
  then have "(t, i) \<in> set vocab2idx"
    by (rule map_of_SomeD)
  then have "map_of (invert_dict vocab2idx) i = Some t"
    using assms(1) by (rule invert_dict_lookup [rotated])
  then show ?thesis
    by (simp add: dict_get_def idx2vocab_of_def)
qed

theorem vocab_round_trip_witness:
  "distinct (map snd [(''a'', 0::int), (''cat'', 1), (''__EOS__'', 2)])
   \<and> dict_get [(''a'', 0::int), (''cat'', 1), (''__EOS__'', 2)] ''cat'' = Inr 1
   \<and> dict_get (idx2vocab_of [(''a'', 0), (''cat'', 1), (''__EOS__'', 2)]) 1 = Inr ''cat''"
proof -
  have d: "distinct (map snd [(''a'', 0::int), (''cat'', 1), (''__EOS__'', 2)])"
    by simp
  have g: "dict_get [(''a'', 0::int), (''cat'', 1), (''__EOS__'', 2)] ''cat'' = Inr 1"
    by (simp add: dict_get_def)
  show ?thesis
    using d g vocab_round_trip [OF d g] by simp
qed

section \<open>Properties of the sequencing functions\<close>

lemma then_do_Inr: "then_do m f = Inr y \<longleftrightarrow> (\<exists>x. m = Inr x \<and> f x = Inr y)"
  by (cases m) (simp_all add: then_do_def)

lemma then_do_simps: "then_do (Inr x) f = f x" "then_do (Inl e) f = Inl e"
  by (simp_all add: then_do_def)

lemma mapM_Inr:
  "mapM f xs = Inr ys \<Longrightarrow> length ys = length xs \<and> (\<forall>i < length xs. f (xs ! i) = Inr (ys ! i))"
proof (induction xs arbitrary: ys)
  case Nil
  then show ?case by simp
next
  case (Cons x xs)
  then obtain y ys' where fx: "f x = Inr y" and r: "mapM f xs = Inr ys'" and ys: "ys = y # ys'"
    by (auto split: sum.splits)
  from Cons.IH [OF r] show ?case
    by (auto simp: ys fx nth_Cons')
qed

lemma mapM_map_Inr: "(\<And>x. x \<in> set xs \<Longrightarrow> f x = Inr (g x)) \<Longrightarrow> mapM f xs = Inr (map g xs)"
  by (induction xs) simp_all

lemma foldM_invariant:
  assumes "foldM f s xs = Inr s'"
    and "P K s"
    and "\<And>s x s' K. x \<in> set xs \<Longrightarrow> P K s \<Longrightarrow> f s x = Inr s' \<Longrightarrow> P (K \<union> g x) s'"
  shows "P (K \<union> (\<Union>x \<in> set xs. g x)) s'"
  using assms
proof (induction xs arbitrary: s K)
  case Nil
  then show ?case by simp
next
  case (Cons x xs)
  from Cons.prems(1) obtain s1 where fx: "f s x = Inr s1" and rest: "foldM f s1 xs = Inr s'"
    by (auto split: sum.splits)
  have "P (K \<union> g x) s1"
    using Cons.prems(3) [of x K s s1] Cons.prems(2) fx by simp
  then have "P ((K \<union> g x) \<union> (\<Union>y \<in> set xs. g y)) s'"
    using rest Cons.prems(3) by (intro Cons.IH) auto
  then show ?case
    by (simp add: Un_assoc)
qed

section \<open>The shape assertion of the classifiers\<close>

text \<open>
  Claim C5. For an image tensor (at least the 4 dimensions batch, channels, height and
  width), \<^verbatim>\<open>TripletClassifier.forward\<close> and \<^verbatim>\<open>MultiHeadClassifier.forward\<close> raise
  \<^verbatim>\<open>AssertionError\<close> exactly when dimension 2 or dimension 3 differs from
  \<^verbatim>\<open>input_size\<close>; when both are equal to it, the forward pass goes on to the
  backbone and returns its result.
\<close>

theorem classifier_shape_assertion:
  assumes "4 \<le> length (shape x)"
  shows "(TripletClassifier_forward n model pre x = Inl AssertionError
            \<longleftrightarrow> shape x ! 2 \<noteq> n \<or> shape x ! 3 \<noteq> n)
       \<and> (MultiHeadClassifier_forward n backbone pre x = Inl AssertionError
            \<longleftrightarrow> shape x ! 2 \<noteq> n \<or> shape x ! 3 \<noteq> n)
       \<and> (shape x ! 2 = n \<and> shape x ! 3 = n
            \<longrightarrow> TripletClassifier_forward n model pre x = Inr (model (pre x))
              \<and> MultiHeadClassifier_forward n backbone pre x = Inr (backbone (pre x)))"
  using assms
  by (simp add: TripletClassifier_forward_def MultiHeadClassifier_forward_def list_get_def)

theorem classifier_shape_assertion_witness:
  "4 \<le> length (shape \<lparr>shape = [5, 3, 224, 200], elems = []\<rparr>)
   \<and> TripletClassifier_forward 224 (\<lambda>_. ()) (\<lambda>x. x) \<lparr>shape = [5, 3, 224, 200], elems = []\<rparr>
       = Inl AssertionError
   \<and> MultiHeadClassifier_forward 224 (\<lambda>_. ()) (\<lambda>x. x) \<lparr>shape = [5, 3, 224, 200], elems = []\<rparr>
       = Inl AssertionError"
proof -
  have h: "4 \<le> length (shape \<lparr>shape = [5, 3, 224, 200], elems = []\<rparr>)"
    by simp
  show ?thesis
    using h classifier_shape_assertion [OF h, of 224 "\<lambda>_. ()" "\<lambda>x. x" "\<lambda>_. ()"] by simp
qed

section \<open>The selection of the triplets\<close>

text \<open>
  Where a run of \<^verbatim>\<open>forward\<close> is evaluated below, the activation is the function with
  the value 0.5 at 0 and 1.0 elsewhere, and the scores are 0, 20 and 30: there it has
  the values of \<^verbatim>\<open>nn.Sigmoid\<close> in 32-bit floats, which sends 0 to 0.5 and rounds the
  logistic function of 20 and of 30 to 1.0. The theorems themselves are about every
  activation.
\<close>

lemma filter_enumerate:
  "map fst (filter (\<lambda>(i, d). P d) (enumerate n xs)) = filter (\<lambda>i. P (xs ! (i - n))) [n..<n + length xs]"
proof (induction xs arbitrary: n)
  case Nil
  show ?case by simp
next
  case (Cons x xs)
  have up: "[n..<n + length (x # xs)] = n # [Suc n..<Suc n + length xs]"
  proof -
    have "[n..<n + length (x # xs)] = n # [Suc n..<n + length (x # xs)]"
      by (rule upt_conv_Cons) simp
    then show ?thesis
      by (simp only: list.size add_Suc_right add_Suc add_0_right)
  qed
  have tl: "filter (\<lambda>i. P ((x # xs) ! (i - n))) [Suc n..<Suc n + length xs] =
        filter (\<lambda>i. P (xs ! (i - Suc n))) [Suc n..<Suc n + length xs]"
    by (rule filter_cong) (auto simp: nth_Cons')
  show ?case
    unfolding up using Cons.IH [of "Suc n"] tl by simp
qed

lemma reshape_row_Inr:
  "reshape_row row = Inr bs \<Longrightarrow>
     length row = 2 * length bs \<and> (\<forall>c < length bs. bs ! c = (row ! (2 * c), row ! (2 * c + 1)))"
proof (induction row arbitrary: bs rule: reshape_row.induct)
  case 1
  then show ?case by simp
next
  case (2 x)
  then show ?case by simp
next
  case (3 x y zs)
  then obtain bs' where r: "reshape_row zs = Inr bs'" and bs: "bs = (x, y) # bs'"
    by (auto split: sum.splits)
  from "3.IH" [OF r] have len: "length zs = 2 * length bs'"
    and nth: "\<forall>c < length bs'. bs' ! c = (zs ! (2 * c), zs ! (2 * c + 1))"
    by simp_all
  show ?case
  proof (intro conjI allI impI)
    show "length (x # y # zs) = 2 * length bs" by (simp add: len bs)
  next
    fix c assume c: "c < length bs"
    show "bs ! c = ((x # y # zs) ! (2 * c), (x # y # zs) ! (2 * c + 1))"
    proof (cases c)
      case 0
      then show ?thesis by (simp add: bs)
    next
      case (Suc k)
      with c have "k < length bs'" by (simp add: bs)
      with nth have "bs' ! k = (zs ! (2 * k), zs ! (2 * k + 1))" by blast
      then show ?thesis by (simp add: bs Suc)
    qed
  qed
qed

lemma threshold_argmax: "threshold \<le> real (argmax p) \<longleftrightarrow> fst p < snd p"
  by (simp add: threshold_def argmax_def)

lemma MultiHeadClassifier_forward_Inr:
  "MultiHeadClassifier_forward n backbone pre img = Inr r \<Longrightarrow> r = backbone (pre img)"
  by (auto simp: MultiHeadClassifier_forward_def split: sum.splits if_splits)

lemma FinalModel_indeces_nth:
  assumes "b < length class_out"
  shows "FinalModel_indeces class_out ! b =
           filter (\<lambda>c. fst (class_out ! b ! c) < snd (class_out ! b ! c)) [0..<length (class_out ! b)]"
proof -
  have "FinalModel_indeces class_out ! b =
          map fst (filter (\<lambda>(i, d). threshold \<le> real d) (enumerate 0 (map argmax (class_out ! b))))"
    using assms by (simp add: FinalModel_indeces_def)
  also have "\<dots> = filter (\<lambda>i. threshold \<le> real (map argmax (class_out ! b) ! (i - 0)))
                      [0..<0 + length (map argmax (class_out ! b))]"
    by (rule filter_enumerate)
  also have "\<dots> = filter (\<lambda>c. fst (class_out ! b ! c) < snd (class_out ! b ! c))
                      [0..<length (class_out ! b)]"
    by (rule filter_cong) (simp_all add: threshold_argmax)
  finally show ?thesis .
qed

lemma length_FinalModel_indeces: "length (FinalModel_indeces class_out) = length class_out"
  by (simp add: FinalModel_indeces_def)

lemma FinalModel_class_out_indeces:
  assumes "FinalModel_class_out sigmoid scores = Inr class_out"
  shows "length class_out = length scores \<and>
         (\<forall>b < length scores.
            FinalModel_indeces class_out ! b =
              filter (\<lambda>c. sigmoid (scores ! b ! (2 * c)) < sigmoid (scores ! b ! (2 * c + 1)))
                     [0..<length (scores ! b) div 2])"
proof -
  from assms have len: "length class_out = length scores"
    and rows: "\<forall>b < length scores. reshape_row (map sigmoid (scores ! b)) = Inr (class_out ! b)"
    unfolding FinalModel_class_out_def by (auto dest: mapM_Inr)
  have "FinalModel_indeces class_out ! b =
          filter (\<lambda>c. sigmoid (scores ! b ! (2 * c)) < sigmoid (scores ! b ! (2 * c + 1)))
                 [0..<length (scores ! b) div 2]"
    if b: "b < length scores" for b
  proof -
    from b rows have "reshape_row (map sigmoid (scores ! b)) = Inr (class_out ! b)"
      by blast
    from reshape_row_Inr [OF this]
    have l2: "length (scores ! b) = 2 * length (class_out ! b)"
      and blk: "\<forall>c < length (class_out ! b).
                  class_out ! b ! c = (map sigmoid (scores ! b) ! (2 * c), map sigmoid (scores ! b) ! (2 * c + 1))"
      by simp_all
    have "FinalModel_indeces class_out ! b =
            filter (\<lambda>c. fst (class_out ! b ! c) < snd (class_out ! b ! c)) [0..<length (class_out ! b)]"
      using b by (simp add: FinalModel_indeces_nth len)
    also have "\<dots> = filter (\<lambda>c. sigmoid (scores ! b ! (2 * c)) < sigmoid (scores ! b ! (2 * c + 1)))
                        [0..<length (class_out ! b)]"
      by (rule filter_cong) (use blk l2 in auto)
    finally show ?thesis by (simp add: l2)
  qed
  with len show ?thesis by blast
qed

text \<open>
  Claim C2, as stated, fails. Take one image and two candidate classes with the scores
  \<open>(20, 0)\<close> and \<open>(20, 30)\<close>. In 32-bit floats \<^verbatim>\<open>nn.Sigmoid\<close> sends the score 0 to 0.5
  and the scores 20 and 30 to 1.0, which is what the activation of this example does.
  Every sigmoid-activated score of both classes meets the threshold 0.5, so that the
  selection by the threshold on the score keeps both classes, while \<^verbatim>\<open>forward\<close>
  selects none: the argmax of both blocks is 0, and it is the argmax that is compared
  with the threshold.
\<close>

theorem threshold_selection_counterexample:
  "FinalModel_class_out (\<lambda>x. if x = 0 then 1 / 2 else 1) [[20, 0, 20, 30]]
     = Inr [[(1, 1 / 2), (1, 1)]]
   \<and> FinalModel_indeces [[(1, 1 / 2), (1, 1)]] = [[]]
   \<and> map spec_threshold_selected [[(1, 1 / 2), (1, 1)]] = [[0, 1]]"
proof (intro conjI)
  show "FinalModel_class_out (\<lambda>x. if x = 0 then 1 / 2 else 1) [[20, 0, 20, 30]]
          = Inr [[(1, 1 / 2), (1, 1)]]"
    by (simp add: FinalModel_class_out_def)
  show "FinalModel_indeces [[(1, 1 / 2), (1, 1)]] = [[]]"
    by (simp add: FinalModel_indeces_def argmax_def threshold_def)
  show "map spec_threshold_selected [[(1, 1 / 2), (1, 1)]] = [[0, 1]]"
    by (simp add: spec_threshold_selected_def threshold_def upt_rec)
qed

text \<open>
  Claim C2, amended. \<^verbatim>\<open>FinalModel.forward\<close> cuts the flat score vector of every
  image into per-class blocks of 2 scores, applies the sigmoid, and selects exactly the
  classes whose block has its argmax at index 1, that is, whose second sigmoid-activated
  score is strictly greater than the first. The threshold 0.5 is applied to the argmax
  index (0 or 1), not to the score. This holds whatever function the sigmoid of the
  library is: two scores that it sends to the same value, as 20 and 30, select nothing.
\<close>

theorem FinalModel_selected_argmax:
  assumes "FinalModel_selected sigmoid img_dim backbone pre img = Inr indeces"
  shows "length indeces = length (backbone (pre img)) \<and>
         (\<forall>b < length indeces.
            indeces ! b =
              filter (\<lambda>c. sigmoid (backbone (pre img) ! b ! (2 * c))
                            < sigmoid (backbone (pre img) ! b ! (2 * c + 1)))
                     [0..<length (backbone (pre img) ! b) div 2])"
proof -
  from assms obtain class_out where
    co: "FinalModel_class_out sigmoid (backbone (pre img)) = Inr class_out"
    and ind: "indeces = FinalModel_indeces class_out"
    unfolding FinalModel_selected_def
    by (auto split: sum.splits dest: MultiHeadClassifier_forward_Inr)
  from FinalModel_class_out_indeces [OF co] show ?thesis
    by (simp add: ind length_FinalModel_indeces)
qed

theorem FinalModel_selected_argmax_witness:
  "FinalModel_selected (\<lambda>x. if x = 0 then 1 / 2 else 1) 224 (\<lambda>_. [[20, 0, 0, 20, 20, 30]])
       (\<lambda>x. x) \<lparr>shape = [1, 3, 224, 224], elems = []\<rparr>
     = Inr [[1]]
   \<and> length [[1::nat]] = length [[20, 0, 0, 20, 20, 30::real]]"
proof -
  have h: "FinalModel_selected (\<lambda>x. if x = 0 then 1 / 2 else 1) 224
             (\<lambda>_. [[20, 0, 0, 20, 20, 30]]) (\<lambda>x. x)
             \<lparr>shape = [1, 3, 224, 224], elems = []\<rparr> = Inr [[1]]"
    by (simp add: FinalModel_selected_def MultiHeadClassifier_forward_def list_get_def
        FinalModel_class_out_def FinalModel_indeces_def argmax_def threshold_def)
  show ?thesis
    using h FinalModel_selected_argmax [OF h] by simp
qed




section \<open>The decoder of a model\<close>

text \<open>
  Claim C10. For a \<^verbatim>\<open>decoder\<close> argument other than \<^verbatim>\<open>'linear'\<close>, \<^verbatim>\<open>'lstm'\<close> and
  \<^verbatim>\<open>'rnn'\<close>, \<^verbatim>\<open>CaptionGenerator.__init__\<close> builds the model without assigning
  \<^verbatim>\<open>self.decoder\<close>, and every call of \<^verbatim>\<open>forward\<close> on that model raises: once the
  encoder has run, it is \<^verbatim>\<open>UnboundLocalError\<close>, since \<^verbatim>\<open>decoded_out\<close> was never
  bound.
\<close>

theorem CaptionGenerator_invalid_decoder:
  assumes "decoder \<notin> {''linear'', ''lstm'', ''rnn''}"
  shows "cg_decoder (CaptionGenerator_init feats_dim max_seq_len vocab2idx decoder) = None
       \<and> (\<exists>e. CaptionGenerator_forward T (CaptionGenerator_init feats_dim max_seq_len vocab2idx decoder)
                 g x labels = Inl e)
       \<and> (run_encoder T (GNN feats_dim None) g x = Inr encoded \<longrightarrow>
             CaptionGenerator_forward T (CaptionGenerator_init feats_dim max_seq_len vocab2idx decoder)
               g x labels = Inl UnboundLocalError)"
proof -
  have fw: "CaptionGenerator_forward T (CaptionGenerator_init feats_dim max_seq_len vocab2idx decoder)
              g x labels =
            (case run_encoder T (GNN feats_dim None) g x of
               Inl e \<Rightarrow> Inl e
             | Inr encoded \<Rightarrow> Inl UnboundLocalError)"
    using assms
    by (simp add: CaptionGenerator_forward_def CaptionGenerator_init_def then_do_def Let_def
          split: sum.splits)
  have "cg_decoder (CaptionGenerator_init feats_dim max_seq_len vocab2idx decoder) = None"
    using assms by (simp add: CaptionGenerator_init_def)
  then show ?thesis
    by (simp add: fw split: sum.splits)
qed

theorem CaptionGenerator_invalid_decoder_witness:
  "''transformer'' \<notin> {''linear'', ''lstm'', ''rnn''}
   \<and> cg_decoder (CaptionGenerator_init 4 10 [(''a'', 0)] ''transformer'') = None
   \<and> CaptionGenerator_forward
        \<lparr>run_encoder = (\<lambda>enc g x. Inr [[0, 0, 0, 0]]), run_dropout = (\<lambda>f. f),
         run_linear = (\<lambda>d f. f), run_lstm = (\<lambda>d g f l t. Inr [f]), run_rnn = (\<lambda>d f l. Inr [f]),
         run_img_encoder = (\<lambda>img. Inr [[0, 0, 0, 0]]), run_tripl2graph = (\<lambda>ts. Inr ((), ()))\<rparr>
        (CaptionGenerator_init 4 10 [(''a'', 0)] ''transformer'') () () ()
      = Inl UnboundLocalError"
proof -
  have h: "''transformer'' \<notin> {''linear'', ''lstm'', ''rnn''}"
    by simp
  show ?thesis
    using h CaptionGenerator_invalid_decoder [OF h, of 4 10 "[(''a'', 0)]"
        "\<lparr>run_encoder = (\<lambda>enc g x. Inr [[0, 0, 0, 0]]), run_dropout = (\<lambda>f. f),
         run_linear = (\<lambda>d f. f), run_lstm = (\<lambda>d g f l t. Inr [f]), run_rnn = (\<lambda>d f l. Inr [f]),
         run_img_encoder = (\<lambda>img. Inr [[0, 0, 0, 0]]), run_tripl2graph = (\<lambda>ts. Inr ((), ()))\<rparr>"
        "()" "()" "()" "[[0, 0, 0, 0]]"]
    by simp
qed



text \<open>
  Claim C4. With the decoder \<^verbatim>\<open>'lstm'\<close> and \<^verbatim>\<open>feats_dim = 2\<close>, \<^verbatim>\<open>FinalModel\<close> builds
  the same \<^verbatim>\<open>LSTMDecoder(2, 3, vocab2idx)\<close> as \<^verbatim>\<open>AugmentedCaptionGenerator\<close> does,
  while only its linear decoder is built for the doubled width. With a decoder that
  returns the batch it is given (and the values 0.5 and 1.0 of the sigmoid at the scores
  0 and 20), \<^verbatim>\<open>FinalModel.forward\<close> hands that decoder rows of
  width 4, the concatenation of the graph features \<open>(5, 6)\<close> and the image features
  \<open>(7, 8)\<close>, where \<^verbatim>\<open>AugmentedCaptionGenerator.forward\<close> hands it rows of width 2,
  their weighted sum.
\<close>

theorem lstm_decoder_width_mismatch:
  "fm_decoder (FinalModel_init 1 2 3 [(''a'', 0)] 224 [(''t'', 0)] ''gat'' False True 1 ''lstm'')
     = Some (LSTMDecoder 2 3 [(''a'', 0)])
   \<and> acg_decoder (AugmentedCaptionGenerator_init 1 2 3 [(''a'', 0)] ''lstm'')
     = Some (LSTMDecoder 2 3 [(''a'', 0)])
   \<and> fm_decoder (FinalModel_init 1 2 3 [(''a'', 0)] 224 [(''t'', 0)] ''gat'' False True 1 ''linear'')
     = Some (ModuleList [Linear 4 1, Linear 4 1, Linear 4 1])
   \<and> FinalModel_forward
        \<lparr>run_encoder = (\<lambda>enc g x. Inr [[5, 6]]), run_dropout = (\<lambda>f. f),
         run_linear = (\<lambda>d f. f), run_lstm = (\<lambda>d g f l t. Inr [f]), run_rnn = (\<lambda>d f l. Inr [f]),
         run_img_encoder = (\<lambda>img. Inr [[7, 8]]), run_tripl2graph = (\<lambda>ts. Inr ((), ()))\<rparr>
        (\<lambda>x. if x = 0 then 1 / 2 else 1) (\<lambda>img. [[0, 20]]) (\<lambda>img. img)
        (FinalModel_init 1 2 3 [(''a'', 0)] 224 [(''t'', 0)] ''gat'' False True 1 ''lstm'')
        \<lparr>shape = [1, 3, 224, 224], elems = []\<rparr> () False
      = Inr ([[[5, 6, 7, 8]]], [[(1 / 2, 1)]])
   \<and> AugmentedCaptionGenerator_forward
        \<lparr>run_encoder = (\<lambda>enc g x. Inr [[5, 6]]), run_dropout = (\<lambda>f. f),
         run_linear = (\<lambda>d f. f), run_lstm = (\<lambda>d g f l t. Inr [f]), run_rnn = (\<lambda>d f l. Inr [f]),
         run_img_encoder = (\<lambda>img. Inr [[7, 8]]), run_tripl2graph = (\<lambda>ts. Inr ((), ()))\<rparr>
        (AugmentedCaptionGenerator_init 1 2 3 [(''a'', 0)] ''lstm'')
        () () \<lparr>shape = [1, 3, 224, 224], elems = []\<rparr> ()
      = Inr [[[12, 14]]]"
proof (intro conjI)
  show "fm_decoder (FinalModel_init 1 2 3 [(''a'', 0)] 224 [(''t'', 0)] ''gat'' False True 1 ''lstm'')
     = Some (LSTMDecoder 2 3 [(''a'', 0)])"
    by (simp add: FinalModel_init_def)
  show "acg_decoder (AugmentedCaptionGenerator_init 1 2 3 [(''a'', 0)] ''lstm'')
     = Some (LSTMDecoder 2 3 [(''a'', 0)])"
    by (simp add: AugmentedCaptionGenerator_init_def)
  show "fm_decoder (FinalModel_init 1 2 3 [(''a'', 0)] 224 [(''t'', 0)] ''gat'' False True 1 ''linear'')
     = Some (ModuleList [Linear 4 1, Linear 4 1, Linear 4 1])"
    by (simp add: FinalModel_init_def numeral_3_eq_3)
  show "FinalModel_forward
        \<lparr>run_encoder = (\<lambda>enc g x. Inr [[5, 6]]), run_dropout = (\<lambda>f. f),
         run_linear = (\<lambda>d f. f), run_lstm = (\<lambda>d g f l t. Inr [f]), run_rnn = (\<lambda>d f l. Inr [f]),
         run_img_encoder = (\<lambda>img. Inr [[7, 8]]), run_tripl2graph = (\<lambda>ts. Inr ((), ()))\<rparr>
        (\<lambda>x. if x = 0 then 1 / 2 else 1) (\<lambda>img. [[0, 20]]) (\<lambda>img. img)
        (FinalModel_init 1 2 3 [(''a'', 0)] 224 [(''t'', 0)] ''gat'' False True 1 ''lstm'')
        \<lparr>shape = [1, 3, 224, 224], elems = []\<rparr> () False
      = Inr ([[[5, 6, 7, 8]]], [[(1 / 2, 1)]])"
    by (simp add: FinalModel_forward_def FinalModel_triplets_def FinalModel_init_def
          MultiHeadClassifier_forward_def list_get_def FinalModel_class_out_def then_do_def
          FinalModel_indeces_def argmax_def threshold_def
          FinalModel_decode_triplets_def invert_dict_def dict_set_def dict_get_def
          FinalModel_mod_feats_def)
  show "AugmentedCaptionGenerator_forward
        \<lparr>run_encoder = (\<lambda>enc g x. Inr [[5, 6]]), run_dropout = (\<lambda>f. f),
         run_linear = (\<lambda>d f. f), run_lstm = (\<lambda>d g f l t. Inr [f]), run_rnn = (\<lambda>d f l. Inr [f]),
         run_img_encoder = (\<lambda>img. Inr [[7, 8]]), run_tripl2graph = (\<lambda>ts. Inr ((), ()))\<rparr>
        (AugmentedCaptionGenerator_init 1 2 3 [(''a'', 0)] ''lstm'')
        () () \<lparr>shape = [1, 3, 224, 224], elems = []\<rparr> ()
      = Inr [[[12, 14]]]"
    by (simp add: AugmentedCaptionGenerator_forward_def AugmentedCaptionGenerator_init_def
          then_do_def AugmentedCaptionGenerator_mod_feats_def tensor_add_def broadcast_def)
qed

section \<open>The loss\<close>

lemma concat_kept_comp:
  "concat (map (case_option [] (\<lambda>v. [v]) \<circ> (\<lambda>x. Some (h x))) xs) = map h xs"
  by (induction xs) simp_all

lemma foldl_plus: "foldl (+) a xs = a + sum_list xs" for a :: real
  by (induction xs arbitrary: a) (simp_all add: add.assoc)

lemma py_sum_sum_list: "py_sum xs = sum_list xs"
  by (simp add: py_sum_def foldl_plus)

lemma sum_list_map_upt: "sum_list (map h [0..<n]) = (\<Sum>i < n. h i)" for h :: "nat \<Rightarrow> real"
  by (simp add: interv_sum_list_conv_sum_set_nat atLeast0LessThan)

lemma CrossEntropyLoss_mean:
  assumes len: "length input = length target"
    and ne: "target \<noteq> []"
    and cls: "\<forall>b < length target. 0 \<le> target ! b \<and> target ! b < int (length (input ! b))"
  shows "CrossEntropyLoss input target =
           Inr ((\<Sum>b < length target. cross_entropy (input ! b) (nat (target ! b)))
                / real (length target))"
proof -
  let ?h = "\<lambda>(scores, t). cross_entropy scores (nat t)"
  define zs where "zs = zip input target"
  define kept where "kept = map ?h zs"
  have m: "mapM (\<lambda>(scores, t).
               if t = ignore_index then Inr None
               else if t < 0 \<or> int (length scores) \<le> t then Inl IndexError
               else Inr (Some (cross_entropy scores (nat t)))) zs
        = Inr (map (\<lambda>p. Some (?h p)) zs)"
  proof (rule mapM_map_Inr)
    fix p assume "p \<in> set zs"
    then obtain b where "b < length target" and "p = (input ! b, target ! b)"
      by (auto simp: zs_def in_set_zip)
    with cls show "(case p of (scores, t) \<Rightarrow>
               if t = ignore_index then Inr None
               else if t < 0 \<or> int (length scores) \<le> t then Inl IndexError
               else Inr (Some (cross_entropy scores (nat t)))) = Inr (Some (?h p))"
      by (auto simp: ignore_index_def)
  qed
  have unfolded: "CrossEntropyLoss input target =
          (if kept = [] then Inl NotANumber else Inr (sum_list kept / real (length kept)))"
    by (simp add: CrossEntropyLoss_def len zs_def [symmetric] m then_do_simps concat_kept_comp
          kept_def Let_def del: concat_eq_Nil_conv Nil_eq_concat_conv)
  have klen: "length kept = length target"
    using len by (simp add: kept_def zs_def)
  then have kne: "kept \<noteq> []"
    using ne by auto
  have "kept = map (\<lambda>b. cross_entropy (input ! b) (nat (target ! b))) [0..<length target]"
    using len by (auto simp: kept_def zs_def intro!: nth_equalityI)
  then have ksum: "sum_list kept = (\<Sum>b < length target. cross_entropy (input ! b) (nat (target ! b)))"
    by (simp only: sum_list_map_upt)
  show ?thesis
    by (simp only: unfolded kne ksum klen if_False)
qed

lemma CaptionGenerator_loss_value:
  assumes enc: "mapM (\<lambda>label. encode_seq_to_arr label vocab2idx max_seq_len) labels = Inr ids"
    and ne: "ids \<noteq> []"
    and pos: "0 < max_seq_len"
    and rows: "\<forall>r \<in> set ids. length r = max_seq_len \<and> (\<forall>t \<in> set r. 0 \<le> t \<and> t < int n_classes)"
    and out: "max_seq_len \<le> length out"
    and shape: "\<forall>i < max_seq_len.
                  length (out ! i) = length ids \<and> (\<forall>scores \<in> set (out ! i). length scores = n_classes)"
  shows "CaptionGenerator_loss encode_seq_to_arr out labels vocab2idx max_seq_len dev
           = Inr (averaged_position_cross_entropy out ids max_seq_len)"
proof -
  have vs: "vstack ids = Inr ids"
    using ne rows by (cases ids) (auto simp: vstack_def list_all_iff)
  have step: "then_do (list_get out i) (\<lambda>out_i.
                then_do (column ids i) (\<lambda>target. CrossEntropyLoss out_i target))
              = Inr ((\<Sum>b < length ids. cross_entropy (out ! i ! b) (nat (ids ! b ! i)))
                     / real (length ids))"
    if "i \<in> set [0..<max_seq_len]" for i
  proof -
    from that have i: "i < max_seq_len" by simp
    have g: "list_get out i = Inr (out ! i)"
      using i out by (simp add: list_get_def)
    have c: "column ids i = Inr (map (\<lambda>r. r ! i) ids)"
      unfolding column_def using rows i by (intro mapM_map_Inr) (simp add: list_get_def)
    have "CrossEntropyLoss (out ! i) (map (\<lambda>r. r ! i) ids)
          = Inr ((\<Sum>b < length (map (\<lambda>r. r ! i) ids).
                    cross_entropy (out ! i ! b) (nat (map (\<lambda>r. r ! i) ids ! b)))
                 / real (length (map (\<lambda>r. r ! i) ids)))"
    proof (rule CrossEntropyLoss_mean)
      show "length (out ! i) = length (map (\<lambda>r. r ! i) ids)"
        using shape i by simp
      show "map (\<lambda>r. r ! i) ids \<noteq> []"
        using ne by simp
      show "\<forall>b < length (map (\<lambda>r. r ! i) ids).
              0 \<le> map (\<lambda>r. r ! i) ids ! b \<and> map (\<lambda>r. r ! i) ids ! b < int (length (out ! i ! b))"
      proof (intro allI impI)
        fix b assume "b < length (map (\<lambda>r. r ! i) ids)"
        then have b: "b < length ids" by simp
        then have "ids ! b \<in> set ids" by simp
        with rows i have "ids ! b ! i \<in> set (ids ! b)" and r: "\<forall>t \<in> set (ids ! b). 0 \<le> t \<and> t < int n_classes"
          by simp_all
        then have "0 \<le> ids ! b ! i \<and> ids ! b ! i < int n_classes"
          by blast
        moreover have "length (out ! i ! b) = n_classes"
          using shape i b by simp
        ultimately show "0 \<le> map (\<lambda>r. r ! i) ids ! b \<and> map (\<lambda>r. r ! i) ids ! b < int (length (out ! i ! b))"
          using b by simp
      qed
    qed
    moreover have "(\<Sum>b < length ids. cross_entropy (out ! i ! b) (nat (map (\<lambda>r. r ! i) ids ! b)))
                   = (\<Sum>b < length ids. cross_entropy (out ! i ! b) (nat (ids ! b ! i)))"
      by (rule sum.cong) simp_all
    ultimately show ?thesis
      by (simp add: g c then_do_simps)
  qed
  have "mapM (\<lambda>i. then_do (list_get out i) (\<lambda>out_i.
                then_do (column ids i) (\<lambda>target. CrossEntropyLoss out_i target)))
             [0..<max_seq_len]
        = Inr (map (\<lambda>i. (\<Sum>b < length ids. cross_entropy (out ! i ! b) (nat (ids ! b ! i)))
                          / real (length ids)) [0..<max_seq_len])"
    by (rule mapM_map_Inr) (rule step)
  then show ?thesis
    using pos
    by (simp add: CaptionGenerator_loss_def enc vs then_do_simps py_sum_sum_list
          sum_list_map_upt averaged_position_cross_entropy_def)
qed

text \<open>
  Claim C3. For a batch with at least one caption, every caption encoded as a row of
  \<open>max_seq_len\<close> class ids (its padding included), and a matrix of scores for each of
  the \<open>max_seq_len\<close> positions, \<^verbatim>\<open>_loss\<close> returns the cross-entropy between the scores
  \<^verbatim>\<open>out[i]\<close> and the ids at position \<open>i\<close>, averaged over the samples of the batch,
  summed over all the positions and divided by \<open>max_seq_len\<close>. Every position of every
  caption counts, with the same weight: nothing is masked.
\<close>

theorem loss_is_averaged_position_cross_entropy:
  assumes enc: "mapM (\<lambda>label. encode_seq_to_arr label vocab2idx max_seq_len) labels = Inr ids"
    and ne: "ids \<noteq> []"
    and pos: "0 < max_seq_len"
    and rows: "\<forall>r \<in> set ids. length r = max_seq_len \<and> (\<forall>t \<in> set r. 0 \<le> t \<and> t < int n_classes)"
    and out: "max_seq_len \<le> length out"
    and shape: "\<forall>i < max_seq_len.
                  length (out ! i) = length ids \<and> (\<forall>scores \<in> set (out ! i). length scores = n_classes)"
  shows "CaptionGenerator_loss encode_seq_to_arr out labels vocab2idx max_seq_len dev
           = Inr (averaged_position_cross_entropy out ids max_seq_len)"
  using assms by (rule CaptionGenerator_loss_value)

theorem loss_is_averaged_position_cross_entropy_witness:
  "mapM (\<lambda>label. (\<lambda>label vocab2idx max_seq_len.
            mapM (dict_get vocab2idx)
              (take max_seq_len label @ replicate (max_seq_len - length label) ''__EOS__''))
          label [(''a'', 0::int), (''cat'', 1), (''__EOS__'', 2)] 3) [[''a'', ''cat''], [''cat'']]
     = Inr [[0, 1, 2], [1, 2, 2]]
   \<and> CaptionGenerator_loss
        (\<lambda>label vocab2idx max_seq_len.
            mapM (dict_get vocab2idx)
              (take max_seq_len label @ replicate (max_seq_len - length label) ''__EOS__''))
        [[[0, 0, 0], [0, 0, 0]], [[0, 0, 0], [0, 0, 0]], [[0, 0, 0], [0, 0, 0]]]
        [[''a'', ''cat''], [''cat'']] [(''a'', 0), (''cat'', 1), (''__EOS__'', 2)] 3 CPU
     = Inr (averaged_position_cross_entropy
              [[[0, 0, 0], [0, 0, 0]], [[0, 0, 0], [0, 0, 0]], [[0, 0, 0], [0, 0, 0]]]
              [[0, 1, 2], [1, 2, 2]] 3)"
proof -
  let ?enc = "\<lambda>label (vocab2idx :: vocab) max_seq_len.
            mapM (dict_get vocab2idx)
              (take max_seq_len label @ replicate (max_seq_len - length label) ''__EOS__'')"
  let ?vocab = "[(''a'', 0), (''cat'', 1), (''__EOS__'', 2)] :: vocab"
  let ?out = "[[[0, 0, 0], [0, 0, 0]], [[0, 0, 0], [0, 0, 0]], [[0, 0, 0], [0, 0, 0::real]]]"
  have enc: "mapM (\<lambda>label. ?enc label ?vocab 3) [[''a'', ''cat''], [''cat'']]
               = Inr [[0, 1, 2], [1, 2, 2]]"
    by (simp add: dict_get_def numeral_3_eq_3)
  have ne: "[[0, 1, 2], [1, 2, 2::int]] \<noteq> []"
    by simp
  have pos: "0 < (3::nat)"
    by simp
  have rows: "\<forall>r \<in> set [[0, 1, 2], [1, 2, 2::int]].
                length r = 3 \<and> (\<forall>t \<in> set r. 0 \<le> t \<and> t < int 3)"
    by simp
  have out: "3 \<le> length ?out"
    by simp
  have shape: "\<forall>i < 3. length (?out ! i) = length [[0, 1, 2], [1, 2, 2::int]]
                 \<and> (\<forall>scores \<in> set (?out ! i). length scores = 3)"
    by (simp add: numeral_3_eq_3 less_Suc_eq)
  have "CaptionGenerator_loss ?enc ?out [[''a'', ''cat''], [''cat'']] ?vocab 3 CPU
          = Inr (averaged_position_cross_entropy ?out [[0, 1, 2], [1, 2, 2]] 3)"
    by (rule loss_is_averaged_position_cross_entropy
          [where encode_seq_to_arr = ?enc and vocab2idx = ?vocab and max_seq_len = 3
             and n_classes = 3, OF enc ne pos rows out shape])
  with enc show ?thesis
    by (rule conjI)
qed

lemma cross_entropy_nonneg:
  assumes "t < length scores"
  shows "0 \<le> cross_entropy scores t"
proof -
  have "exp (scores ! t) \<in> set (map exp scores)"
    using assms by simp
  moreover have "\<forall>x \<in> set (map exp scores). 0 \<le> x"
    by simp
  ultimately have "exp (scores ! t) \<le> sum_list (map exp scores)"
    by (meson member_le_sum_list)
  then have "ln (exp (scores ! t)) \<le> ln (sum_list (map exp scores))"
    by (meson exp_gt_zero less_le_trans ln_mono)
  then show ?thesis
    by (simp add: cross_entropy_def)
qed

lemma mapM_nth_map:
  assumes "mapM f xs = Inr ys" and "\<forall>j \<in> set js. j < length xs"
  shows "mapM f (map (\<lambda>j. xs ! j) js) = Inr (map (\<lambda>j. ys ! j) js)"
proof -
  have "mapM f (map (\<lambda>j. xs ! j) js) = Inr (map (\<lambda>x. projr (f x)) (map (\<lambda>j. xs ! j) js))"
  proof (rule mapM_map_Inr)
    fix x assume "x \<in> set (map (\<lambda>j. xs ! j) js)"
    then obtain j where "j < length xs" and "x = xs ! j"
      using assms(2) by auto
    with mapM_Inr [OF assms(1)] show "f x = Inr (projr (f x))"
      by simp
  qed
  moreover have "map (\<lambda>x. projr (f x)) (map (\<lambda>j. xs ! j) js) = map (\<lambda>j. ys ! j) js"
    using mapM_Inr [OF assms(1)] assms(2) by simp
  ultimately show ?thesis by simp
qed

lemma averaged_position_cross_entropy_nonneg:
  assumes "\<forall>i < max_seq_len. \<forall>b < length ids. nat (ids ! b ! i) < length (out ! i ! b)"
  shows "0 \<le> averaged_position_cross_entropy out ids max_seq_len"
  unfolding averaged_position_cross_entropy_def
  using assms by (intro divide_nonneg_nonneg sum_nonneg cross_entropy_nonneg) auto

lemma averaged_position_cross_entropy_permute:
  assumes "bij_betw p {..<length ids} {..<length ids}"
    and "max_seq_len \<le> length out"
  shows "averaged_position_cross_entropy
           (map (\<lambda>out_i. map (\<lambda>b. out_i ! p b) [0..<length ids]) out)
           (map (\<lambda>b. ids ! p b) [0..<length ids]) max_seq_len
         = averaged_position_cross_entropy out ids max_seq_len"
proof -
  have "(\<Sum>b < length ids.
           cross_entropy (map (\<lambda>out_i. map (\<lambda>b. out_i ! p b) [0..<length ids]) out ! i ! b)
             (nat (map (\<lambda>b. ids ! p b) [0..<length ids] ! b ! i)))
        = (\<Sum>b < length ids. cross_entropy (out ! i ! b) (nat (ids ! b ! i)))"
    if i: "i < max_seq_len" for i
  proof -
    have "(\<Sum>b < length ids.
             cross_entropy (map (\<lambda>out_i. map (\<lambda>b. out_i ! p b) [0..<length ids]) out ! i ! b)
               (nat (map (\<lambda>b. ids ! p b) [0..<length ids] ! b ! i)))
          = (\<Sum>b < length ids. cross_entropy (out ! i ! p b) (nat (ids ! p b ! i)))"
      using i \<open>max_seq_len \<le> length out\<close> by (intro sum.cong) simp_all
    also have "\<dots> = (\<Sum>b < length ids. cross_entropy (out ! i ! b) (nat (ids ! b ! i)))"
      by (rule sum.reindex_bij_betw [OF assms(1)])
    finally show ?thesis .
  qed
  then show ?thesis
    by (simp add: averaged_position_cross_entropy_def)
qed

text \<open>
  Claim C7, as stated, fails: \<^verbatim>\<open>_loss\<close> does not return a finite scalar for every
  batch. On the empty batch \<^verbatim>\<open>torch.vstack\<close> raises, and on a batch in which every id
  of a position is the ignore index of the cross-entropy (here a vocabulary that gives
  its only token the id -100) the mean over no sample is nan.
\<close>

theorem loss_scalar_counterexample:
  "CaptionGenerator_loss
      (\<lambda>label vocab2idx max_seq_len.
          mapM (dict_get vocab2idx)
            (take max_seq_len label @ replicate (max_seq_len - length label) ''__EOS__''))
      [[], [], []] [] [(''a'', 0), (''cat'', 1), (''__EOS__'', 2)] 3 CPU
     = Inl RuntimeError
   \<and> CaptionGenerator_loss
      (\<lambda>label vocab2idx max_seq_len.
          mapM (dict_get vocab2idx)
            (take max_seq_len label @ replicate (max_seq_len - length label) ''__EOS__''))
      [[[0]]] [[''a'']] [(''a'', - 100)] 1 CPU
     = Inl NotANumber"
  by (simp add: CaptionGenerator_loss_def then_do_simps vstack_def dict_get_def column_def
        list_get_def CrossEntropyLoss_def ignore_index_def)

text \<open>
  Claim C7, amended. For a batch with at least one caption, every caption encoded as a
  row of \<open>max_seq_len\<close> class ids, and a matrix of scores of matching shape for each of
  the \<open>max_seq_len\<close> positions, \<^verbatim>\<open>_loss\<close> returns a single non-negative scalar, and
  it returns the same scalar when the samples of the batch are permuted: the captions,
  and with them the rows of every \<^verbatim>\<open>out[i]\<close>. The scalar is the one of exact
  arithmetic.
\<close>

theorem loss_nonnegative_permutation_invariant:
  assumes enc: "mapM (\<lambda>label. encode_seq_to_arr label vocab2idx max_seq_len) labels = Inr ids"
    and ne: "ids \<noteq> []"
    and pos: "0 < max_seq_len"
    and rows: "\<forall>r \<in> set ids. length r = max_seq_len \<and> (\<forall>t \<in> set r. 0 \<le> t \<and> t < int n_classes)"
    and out: "max_seq_len \<le> length out"
    and shape: "\<forall>i < max_seq_len.
                  length (out ! i) = length ids \<and> (\<forall>scores \<in> set (out ! i). length scores = n_classes)"
    and perm: "bij_betw p {..<length labels} {..<length labels}"
  shows "\<exists>v. CaptionGenerator_loss encode_seq_to_arr out labels vocab2idx max_seq_len dev = Inr v
           \<and> 0 \<le> v
           \<and> CaptionGenerator_loss encode_seq_to_arr
               (map (\<lambda>out_i. map (\<lambda>b. out_i ! p b) [0..<length labels]) out)
               (map (\<lambda>b. labels ! p b) [0..<length labels]) vocab2idx max_seq_len dev = Inr v"
proof -
  let ?B = "length labels"
  let ?out' = "map (\<lambda>out_i. map (\<lambda>b. out_i ! p b) [0..<?B]) out"
  let ?ids' = "map (\<lambda>b. ids ! p b) [0..<?B]"
  have len: "length ids = ?B"
    using mapM_Inr [OF enc] by simp
  have pb: "p b < ?B" if "b < ?B" for b
    using perm that by (auto simp: bij_betw_def)
  have orig: "CaptionGenerator_loss encode_seq_to_arr out labels vocab2idx max_seq_len dev
                = Inr (averaged_position_cross_entropy out ids max_seq_len)"
    using enc ne pos rows out shape by (rule CaptionGenerator_loss_value)
  have cls: "nat (ids ! b ! i) < length (out ! i ! b)" if i: "i < max_seq_len" and b: "b < length ids" for i b
  proof -
    from b have "ids ! b \<in> set ids" by simp
    with rows i have "ids ! b ! i \<in> set (ids ! b)" and "\<forall>t \<in> set (ids ! b). 0 \<le> t \<and> t < int n_classes"
      by simp_all
    then have "0 \<le> ids ! b ! i \<and> ids ! b ! i < int n_classes"
      by blast
    moreover have "length (out ! i ! b) = n_classes"
      using shape i b by simp
    ultimately show ?thesis by linarith
  qed
  then have nonneg: "0 \<le> averaged_position_cross_entropy out ids max_seq_len"
    by (intro averaged_position_cross_entropy_nonneg) simp
  have "mapM (\<lambda>label. encode_seq_to_arr label vocab2idx max_seq_len)
          (map (\<lambda>j. labels ! j) (map p [0..<?B])) = Inr (map (\<lambda>j. ids ! j) (map p [0..<?B]))"
    using enc by (rule mapM_nth_map) (auto simp: pb)
  then have enc': "mapM (\<lambda>label. encode_seq_to_arr label vocab2idx max_seq_len)
                (map (\<lambda>b. labels ! p b) [0..<?B]) = Inr ?ids'"
    by (simp add: comp_def)
  have ne': "?ids' \<noteq> []"
    using ne len by auto
  have rows': "\<forall>r \<in> set ?ids'. length r = max_seq_len \<and> (\<forall>t \<in> set r. 0 \<le> t \<and> t < int n_classes)"
    using rows pb len by auto
  have out': "max_seq_len \<le> length ?out'"
    using out by simp
  have shape': "\<forall>i < max_seq_len.
                  length (?out' ! i) = length ?ids' \<and> (\<forall>scores \<in> set (?out' ! i). length scores = n_classes)"
  proof (intro allI impI conjI ballI)
    fix i assume i: "i < max_seq_len"
    then show "length (?out' ! i) = length ?ids'"
      using out by simp
    fix scores assume "scores \<in> set (?out' ! i)"
    then obtain b where "b < ?B" and "scores = out ! i ! p b"
      using i out by auto
    moreover from this have "out ! i ! p b \<in> set (out ! i)"
      using shape i len pb by simp
    ultimately show "length scores = n_classes"
      using shape i by blast
  qed
  have "CaptionGenerator_loss encode_seq_to_arr ?out' (map (\<lambda>b. labels ! p b) [0..<?B])
          vocab2idx max_seq_len dev
        = Inr (averaged_position_cross_entropy ?out' ?ids' max_seq_len)"
    using enc' ne' pos rows' out' shape' by (rule CaptionGenerator_loss_value)
  also have "averaged_position_cross_entropy ?out' ?ids' max_seq_len
             = averaged_position_cross_entropy out ids max_seq_len"
    using averaged_position_cross_entropy_permute [of p ids max_seq_len out] perm out
    by (simp add: len)
  finally show ?thesis
    using orig nonneg by blast
qed

theorem loss_nonnegative_permutation_invariant_witness:
  "bij_betw (\<lambda>b. 1 - b) {..<length [[''a'', ''cat''], [''cat'']]} {..<length [[''a'', ''cat''], [''cat'']]}
   \<and> (\<exists>v. CaptionGenerator_loss
          (\<lambda>label vocab2idx max_seq_len.
              mapM (dict_get vocab2idx)
                (take max_seq_len label @ replicate (max_seq_len - length label) ''__EOS__''))
          [[[0, 1, 0], [0, 0, 2]], [[0, 3, 0], [0, 0, 0]], [[1, 0, 0], [0, 1, 0]]]
          [[''a'', ''cat''], [''cat'']] [(''a'', 0), (''cat'', 1), (''__EOS__'', 2)] 3 CPU = Inr v
        \<and> 0 \<le> v
        \<and> CaptionGenerator_loss
          (\<lambda>label vocab2idx max_seq_len.
              mapM (dict_get vocab2idx)
                (take max_seq_len label @ replicate (max_seq_len - length label) ''__EOS__''))
          [[[0, 0, 2], [0, 1, 0]], [[0, 0, 0], [0, 3, 0]], [[0, 1, 0], [1, 0, 0]]]
          [[''cat''], [''a'', ''cat'']] [(''a'', 0), (''cat'', 1), (''__EOS__'', 2)] 3 CPU = Inr v)"
proof -
  let ?enc = "\<lambda>label (vocab2idx :: vocab) max_seq_len.
            mapM (dict_get vocab2idx)
              (take max_seq_len label @ replicate (max_seq_len - length label) ''__EOS__'')"
  let ?vocab = "[(''a'', 0), (''cat'', 1), (''__EOS__'', 2)] :: vocab"
  let ?out = "[[[0, 1, 0], [0, 0, 2]], [[0, 3, 0], [0, 0, 0]], [[1, 0, 0], [0, 1, 0::real]]]"
  let ?labels = "[[''a'', ''cat''], [''cat'']]"
  have enc: "mapM (\<lambda>label. ?enc label ?vocab 3) ?labels = Inr [[0, 1, 2], [1, 2, 2]]"
    by (simp add: dict_get_def numeral_3_eq_3)
  have ne: "[[0, 1, 2], [1, 2, 2::int]] \<noteq> []"
    by simp
  have pos: "0 < (3::nat)"
    by simp
  have rows: "\<forall>r \<in> set [[0, 1, 2], [1, 2, 2::int]].
                length r = 3 \<and> (\<forall>t \<in> set r. 0 \<le> t \<and> t < int 3)"
    by simp
  have out: "3 \<le> length ?out"
    by simp
  have shape: "\<forall>i < 3. length (?out ! i) = length [[0, 1, 2], [1, 2, 2::int]]
                 \<and> (\<forall>scores \<in> set (?out ! i). length scores = 3)"
    by (simp add: numeral_3_eq_3 less_Suc_eq)
  have perm: "bij_betw (\<lambda>b. 1 - b) {..<length ?labels} {..<length ?labels}"
    by (auto simp: bij_betw_def inj_on_def lessThan_Suc image_def)
  have "\<exists>v. CaptionGenerator_loss ?enc ?out ?labels ?vocab 3 CPU = Inr v \<and> 0 \<le> v
          \<and> CaptionGenerator_loss ?enc
               (map (\<lambda>out_i. map (\<lambda>b. out_i ! (1 - b)) [0..<length ?labels]) ?out)
               (map (\<lambda>b. ?labels ! (1 - b)) [0..<length ?labels]) ?vocab 3 CPU = Inr v"
    by (rule loss_nonnegative_permutation_invariant
          [where encode_seq_to_arr = ?enc and vocab2idx = ?vocab and max_seq_len = 3
             and n_classes = 3 and p = "\<lambda>b. 1 - b", OF enc ne pos rows out shape perm])
  then have "\<exists>v. CaptionGenerator_loss ?enc ?out ?labels ?vocab 3 CPU = Inr v \<and> 0 \<le> v
          \<and> CaptionGenerator_loss ?enc
               [[[0, 0, 2], [0, 1, 0]], [[0, 0, 0], [0, 3, 0]], [[0, 1, 0], [1, 0, 0]]]
               [[''cat''], [''a'', ''cat'']] ?vocab 3 CPU = Inr v"
    by (simp add: upt_rec)
  with perm show ?thesis
    by (rule conjI)
qed

text \<open>
  Claim C9. The \<^verbatim>\<open>_loss\<close> methods of \<^verbatim>\<open>CaptionGenerator\<close>,
  \<^verbatim>\<open>AugmentedCaptionGenerator\<close>, \<^verbatim>\<open>FinalModel\<close> and \<^verbatim>\<open>FinetunedModel\<close> are the same
  function: on the same arguments all four return the same value or raise the same
  exception.
\<close>

theorem loss_methods_equal:
  "AugmentedCaptionGenerator_loss enc out labels vocab2idx max_seq_len dev
     = CaptionGenerator_loss enc out labels vocab2idx max_seq_len dev
   \<and> FinalModel_loss enc out labels vocab2idx max_seq_len dev
     = CaptionGenerator_loss enc out labels vocab2idx max_seq_len dev
   \<and> FinetunedModel_loss enc out labels vocab2idx max_seq_len dev
     = CaptionGenerator_loss enc out labels vocab2idx max_seq_len dev"
  by (simp add: CaptionGenerator_loss_def AugmentedCaptionGenerator_loss_def FinalModel_loss_def
        FinetunedModel_loss_def)

section \<open>The result files\<close>

lemma set_dict_set: "set (dict_set d k v) \<subseteq> insert (k, v) (set d)"
  unfolding dict_set_def by (induction d) auto

lemma entries_ok_dict_set:
  assumes "entries_ok K result" and "is_caption_entry v"
  shows "entries_ok (insert k K) (dict_set result k v)"
proof -
  have "distinct (map fst (dict_set result k v))"
    using assms(1) by (simp add: entries_ok_def dict_set_def distinct_update)
  moreover have "set (map fst (dict_set result k v)) = insert k K"
    using assms(1) dom_update [of k v result] by (auto simp: entries_ok_def dict_set_def)
  moreover have "list_all (\<lambda>(sample_id, v). is_caption_entry v) (dict_set result k v)"
    using assms set_dict_set [of result k v] by (auto simp: entries_ok_def list_all_iff)
  ultimately show ?thesis
    by (simp add: entries_ok_def)
qed

lemma is_caption_entry_literal:
  "is_caption_entry (JObj [(''caption length'', JInt (int (length decoded))),
                           (''caption '', JList (map JStr decoded))])"
  by (simp add: list_all_iff)

lemma eval_captions_batch_ok:
  assumes "eval_captions_batch decode_output model idx2word result data = Inr result'"
    and "entries_ok K result"
  shows "entries_ok (K \<union> set (fst data)) result'"
proof -
  obtain ids inputs where data: "data = (ids, inputs)" by (cases data)
  from assms(1) obtain decoded_outputs where
    loop: "foldM (\<lambda>result (i, sample_id).
                 then_do (list_get decoded_outputs i) (\<lambda>decoded.
                 Inr (dict_set result sample_id
                        (JObj [(''caption length'', JInt (int (length decoded))),
                               (''caption '', JList (map JStr decoded))]))))
              result (enumerate 0 ids) = Inr result'"
    by (auto simp: eval_captions_batch_def data then_do_Inr)
  have "entries_ok (K \<union> (\<Union>p \<in> set (enumerate 0 ids). {snd p})) result'"
    using loop assms(2)
  proof (rule foldM_invariant)
    fix s p s' K'
    assume "entries_ok K' s"
      and "(case p of (i, sample_id) \<Rightarrow>
              then_do (list_get decoded_outputs i) (\<lambda>decoded.
                 Inr (dict_set s sample_id
                        (JObj [(''caption length'', JInt (int (length decoded))),
                               (''caption '', JList (map JStr decoded))])))) = Inr s'"
    then show "entries_ok (K' \<union> {snd p}) s'"
      by (cases p) (auto simp: then_do_Inr intro: entries_ok_dict_set is_caption_entry_literal)
  qed
  moreover have "(\<Union>p \<in> set (enumerate 0 ids). {snd p}) = set ids"
  proof -
    have "(\<Union>p \<in> set (enumerate 0 ids). {snd p}) = snd ` set (enumerate 0 ids)"
      by auto
    also have "\<dots> = set (map snd (enumerate 0 ids))"
      by (simp only: set_map)
    finally show ?thesis by simp
  qed
  ultimately show ?thesis
    by (simp add: data)
qed

lemma eval_pipeline_batch_ok:
  assumes "eval_pipeline_batch sample idx2word result data = Inr result'"
    and "entries_ok K result"
  shows "entries_ok (K \<union> set (fst data)) result'"
proof -
  obtain ids images where data: "data = (ids, images)" by (cases data)
  from assms(1) obtain decode_output where
    loop: "foldM (\<lambda>result sample_id.
                 Inr (dict_set result sample_id
                        (JObj [(''caption length'', JInt (int (length decode_output))),
                               (''caption '', JList (map JStr decode_output))])))
              result ids = Inr result'"
    by (auto simp: eval_pipeline_batch_def data then_do_Inr)
  have "entries_ok (K \<union> (\<Union>k \<in> set ids. {k})) result'"
    using loop assms(2)
    by (rule foldM_invariant) (auto intro: entries_ok_dict_set is_caption_entry_literal)
  then show ?thesis
    by (simp add: data)
qed

lemma entries_ok_result_file: "entries_ok K result \<Longrightarrow> is_result_file K (JObj result)"
  by (simp add: entries_ok_def)

lemma sample_ids_Union: "sample_ids testloader = (\<Union>data \<in> set testloader. set (fst data))"
  by (auto simp: sample_ids_def)

text \<open>
  Claim C8. The JSON value that \<^verbatim>\<open>eval_captions\<close> and \<^verbatim>\<open>eval_pipeline\<close> write is an
  object with one member for each sample id of the loader, whose value is an object with
  exactly the members \<^verbatim>\<open>"caption length"\<close> and \<^verbatim>\<open>"caption "\<close>: the list of the decoded
  tokens, and the length of that list.
\<close>

theorem result_file_shape:
  "(eval_captions decode_output model word2idx testloader = Inr file
      \<longrightarrow> is_result_file (sample_ids testloader) file)
   \<and> (eval_pipeline sample word2idx testloader' = Inr file'
      \<longrightarrow> is_result_file (sample_ids testloader') file')"
proof (intro conjI impI)
  assume "eval_captions decode_output model word2idx testloader = Inr file"
  then obtain result where
    loop: "foldM (eval_captions_batch decode_output model (invert_dict word2idx)) [] testloader
             = Inr result"
    and fl: "file = JObj result"
    by (auto simp: eval_captions_def then_do_Inr Let_def)
  have "entries_ok {} []"
    by (simp add: entries_ok_def)
  with loop have "entries_ok ({} \<union> (\<Union>data \<in> set testloader. set (fst data))) result"
    by (rule foldM_invariant) (rule eval_captions_batch_ok)
  then have "entries_ok (\<Union>data \<in> set testloader. set (fst data)) result"
    by simp
  then have "is_result_file (\<Union>data \<in> set testloader. set (fst data)) (JObj result)"
    by (rule entries_ok_result_file)
  then show "is_result_file (sample_ids testloader) file"
    by (simp only: fl sample_ids_Union)
next
  assume "eval_pipeline sample word2idx testloader' = Inr file'"
  then obtain result where
    loop: "foldM (eval_pipeline_batch sample (invert_dict word2idx)) [] testloader' = Inr result"
    and fl: "file' = JObj result"
    by (auto simp: eval_pipeline_def then_do_Inr Let_def)
  have "entries_ok {} []"
    by (simp add: entries_ok_def)
  with loop have "entries_ok ({} \<union> (\<Union>data \<in> set testloader'. set (fst data))) result"
    by (rule foldM_invariant) (rule eval_pipeline_batch_ok)
  then have "entries_ok (\<Union>data \<in> set testloader'. set (fst data)) result"
    by simp
  then have "is_result_file (\<Union>data \<in> set testloader'. set (fst data)) (JObj result)"
    by (rule entries_ok_result_file)
  then show "is_result_file (sample_ids testloader') file'"
    by (simp only: fl sample_ids_Union)
qed

theorem result_file_shape_witness:
  "eval_captions (\<lambda>outputs idx2word. Inr outputs) (\<lambda>inputs. Inr inputs) [(''a'', 0), (''cat'', 1)]
       [([''0001''], [[''a'', ''cat'']]), ([''0002''], [[''cat'']])]
     = Inr (JObj [(''0001'', JObj [(''caption length'', JInt 2),
                                   (''caption '', JList [JStr ''a'', JStr ''cat''])]),
                  (''0002'', JObj [(''caption length'', JInt 1),
                                   (''caption '', JList [JStr ''cat''])])])
   \<and> eval_pipeline (\<lambda>images. Inr images) [(''a'', 0), (''cat'', 1)]
       [([''0001''], [0, 1]), ([''0002''], [1])]
     = Inr (JObj [(''0001'', JObj [(''caption length'', JInt 2),
                                   (''caption '', JList [JStr ''a'', JStr ''cat''])]),
                  (''0002'', JObj [(''caption length'', JInt 1),
                                   (''caption '', JList [JStr ''cat''])])])
   \<and> is_result_file {''0001'', ''0002''}
        (JObj [(''0001'', JObj [(''caption length'', JInt 2),
                                (''caption '', JList [JStr ''a'', JStr ''cat''])]),
               (''0002'', JObj [(''caption length'', JInt 1),
                                (''caption '', JList [JStr ''cat''])])])"
proof -
  let ?file = "JObj [(''0001'', JObj [(''caption length'', JInt 2),
                                      (''caption '', JList [JStr ''a'', JStr ''cat''])]),
                     (''0002'', JObj [(''caption length'', JInt 1),
                                      (''caption '', JList [JStr ''cat''])])]"
  have c: "eval_captions (\<lambda>outputs idx2word. Inr outputs) (\<lambda>inputs. Inr inputs)
             [(''a'', 0), (''cat'', 1)]
             [([''0001''], [[''a'', ''cat'']]), ([''0002''], [[''cat'']])] = Inr ?file"
    by (simp add: eval_captions_def eval_captions_batch_def then_do_simps list_get_def
          dict_set_def invert_dict_def)
  have p: "eval_pipeline (\<lambda>images. Inr images) [(''a'', 0), (''cat'', 1)]
             [([''0001''], [0, 1]), ([''0002''], [1])] = Inr ?file"
    by (simp add: eval_pipeline_def eval_pipeline_batch_def then_do_simps dict_get_def
          dict_set_def invert_dict_def)
  show ?thesis
    using c p
      result_file_shape [of "\<lambda>outputs idx2word. Inr outputs" "\<lambda>inputs. Inr inputs"
        "[(''a'', 0), (''cat'', 1)]" "[([''0001''], [[''a'', ''cat'']]), ([''0002''], [[''cat'']])]"
        ?file "\<lambda>images. Inr images" "[([''0001''], [0, 1]), ([''0002''], [1])]" ?file]
    by (simp add: sample_ids_def)
qed

end
